theory Spec2Isabelle
  imports Complex_Main "HOL-Library.Stream" "HOL-Library.Log_Nat"
begin

section \<open>Collision avoidance system: the embedding of \<open>src/app.py\<close>\<close>

text \<open>
  The program is one Python class, \<open>CollisionAvoidanceSystem\<close>, with three methods, and
  two Flask handlers that call them. Its numbers are Python's: an \<open>int\<close> is an unbounded
  integer, a \<open>float\<close> is an IEEE 754 binary64 value. A finite float is the real number it
  denotes, and every float operation rounds its exact result to the nearest double, a
  tie going to the even significand, and to an infinity beyond the largest double. The
  sign of zero is not represented. Operations that mix the two types convert the
  \<open>int\<close> operand to \<open>float\<close> first, which raises \<open>OverflowError\<close> when it is out of
  range; comparisons compare the exact values.
\<close>

subsection \<open>Floats\<close>

datatype pyfloat = Finite real | PosInf | NegInf | NaN

datatype py_error = KeyError | TypeError | ZeroDivisionError | OverflowError

definition bind_err :: "'e + 'a \<Rightarrow> ('a \<Rightarrow> 'e + 'b) \<Rightarrow> 'e + 'b" where
  "bind_err r f = (case r of Inl e \<Rightarrow> Inl e | Inr v \<Rightarrow> f v)"

text \<open>Rounding to the nearest integer, a tie going to the even one.\<close>

definition round_half_even :: "real \<Rightarrow> int" where
  "round_half_even x =
     (let f = \<lfloor>x\<rfloor>; d = x - of_int f
      in if d < 1 / 2 then f
         else if 1 / 2 < d then f + 1
         else if even f then f else f + 1)"

text \<open>
  \<open>binade x\<close> is the \<open>k\<close> with \<open>2 ^ k \<le> \<bar>x\<bar> < 2 ^ (k + 1)\<close>, for \<open>x\<close> other than zero. A
  double has 53 significant bits, so its last bit weighs \<open>2 ^ (k - 52)\<close>, and never less
  than \<open>2 ^ - 1074\<close>, the weight of the last bit of a subnormal number.
\<close>

definition binade :: "real \<Rightarrow> int" where
  "binade x =
     (if 1 \<le> \<bar>x\<bar> then bitlen \<lfloor>\<bar>x\<bar>\<rfloor> - 1 else - bitlen (\<lceil>1 / \<bar>x\<bar>\<rceil> - 1))"

definition ulp_exp :: "real \<Rightarrow> int" where
  "ulp_exp x = max (binade x - 52) (- 1074)"

definition round_to_double :: "real \<Rightarrow> real" where
  "round_to_double x =
     of_int (round_half_even (x / 2 powi ulp_exp x)) * 2 powi ulp_exp x"

definition to_double :: "real \<Rightarrow> pyfloat" where
  "to_double x =
     (let v = round_to_double x
      in if 2 ^ 1024 \<le> v then PosInf
         else if v \<le> - (2 ^ 1024) then NegInf
         else Finite v)"

text \<open>
  \<open>x + y\<close> on floats: the rounded sum of finite values; an infinity absorbs a finite
  value, opposite infinities and NaN give NaN.
\<close>

fun float_add :: "pyfloat \<Rightarrow> pyfloat \<Rightarrow> pyfloat" where
  "float_add (Finite x) (Finite y) = to_double (x + y)"
| "float_add NaN _ = NaN"
| "float_add _ NaN = NaN"
| "float_add PosInf NegInf = NaN"
| "float_add NegInf PosInf = NaN"
| "float_add PosInf _ = PosInf"
| "float_add _ PosInf = PosInf"
| "float_add NegInf _ = NegInf"
| "float_add _ NegInf = NegInf"

fun float_neg :: "pyfloat \<Rightarrow> pyfloat" where
  "float_neg (Finite x) = Finite (- x)"
| "float_neg PosInf = NegInf"
| "float_neg NegInf = PosInf"
| "float_neg NaN = NaN"

definition float_sub :: "pyfloat \<Rightarrow> pyfloat \<Rightarrow> pyfloat" where
  "float_sub x y = float_add x (float_neg y)"

fun float_abs :: "pyfloat \<Rightarrow> pyfloat" where
  "float_abs (Finite x) = Finite \<bar>x\<bar>"
| "float_abs PosInf = PosInf"
| "float_abs NegInf = PosInf"
| "float_abs NaN = NaN"

text \<open>\<open>x * y\<close> on floats: an infinity times zero is NaN.\<close>

fun float_mul :: "pyfloat \<Rightarrow> pyfloat \<Rightarrow> pyfloat" where
  "float_mul (Finite x) (Finite y) = to_double (x * y)"
| "float_mul NaN _ = NaN"
| "float_mul _ NaN = NaN"
| "float_mul (Finite x) PosInf = (if x = 0 then NaN else if 0 < x then PosInf else NegInf)"
| "float_mul (Finite x) NegInf = (if x = 0 then NaN else if 0 < x then NegInf else PosInf)"
| "float_mul PosInf (Finite y) = (if y = 0 then NaN else if 0 < y then PosInf else NegInf)"
| "float_mul NegInf (Finite y) = (if y = 0 then NaN else if 0 < y then NegInf else PosInf)"
| "float_mul PosInf PosInf = PosInf"
| "float_mul NegInf NegInf = PosInf"
| "float_mul PosInf NegInf = NegInf"
| "float_mul NegInf PosInf = NegInf"

text \<open>
  \<open>x / y\<close> on floats: a zero divisor raises \<open>ZeroDivisionError\<close> whatever the dividend is;
  no other float division raises.
\<close>

fun float_truediv :: "pyfloat \<Rightarrow> pyfloat \<Rightarrow> py_error + pyfloat" where
  "float_truediv a (Finite y) =
     (if y = 0 then Inl ZeroDivisionError
      else Inr (case a of
                  Finite x \<Rightarrow> to_double (x / y)
                | PosInf \<Rightarrow> (if 0 < y then PosInf else NegInf)
                | NegInf \<Rightarrow> (if 0 < y then NegInf else PosInf)
                | NaN \<Rightarrow> NaN))"
| "float_truediv a NaN = Inr NaN"
| "float_truediv (Finite x) b = Inr (Finite 0)"
| "float_truediv a b = Inr NaN"

text \<open>Comparisons on floats: every comparison with NaN is false.\<close>

fun float_lt :: "pyfloat \<Rightarrow> pyfloat \<Rightarrow> bool" where
  "float_lt (Finite x) (Finite y) = (x < y)"
| "float_lt NaN _ = False"
| "float_lt _ NaN = False"
| "float_lt _ NegInf = False"
| "float_lt PosInf _ = False"
| "float_lt NegInf _ = True"
| "float_lt _ PosInf = True"

fun float_eq :: "pyfloat \<Rightarrow> pyfloat \<Rightarrow> bool" where
  "float_eq (Finite x) (Finite y) = (x = y)"
| "float_eq PosInf PosInf = True"
| "float_eq NegInf NegInf = True"
| "float_eq _ _ = False"

subsection \<open>Numbers\<close>

datatype pynum = PyInt int | PyFloat pyfloat

text \<open>A float literal of the source denotes the double nearest to its decimal value.\<close>

definition float_literal :: "real \<Rightarrow> pynum" where
  "float_literal x = PyFloat (to_double x)"

text \<open>\<open>float(n)\<close> for an \<open>int\<close>, as the mixed operations apply it to their operand.\<close>

definition float_of_int :: "int \<Rightarrow> py_error + pyfloat" where
  "float_of_int n =
     (case to_double (of_int n) of Finite v \<Rightarrow> Inr (Finite v) | _ \<Rightarrow> Inl OverflowError)"

fun to_float :: "pynum \<Rightarrow> py_error + pyfloat" where
  "to_float (PyInt n) = float_of_int n"
| "to_float (PyFloat f) = Inr f"

fun py_add :: "pynum \<Rightarrow> pynum \<Rightarrow> py_error + pynum" where
  "py_add (PyInt a) (PyInt b) = Inr (PyInt (a + b))"
| "py_add x y =
     bind_err (to_float x) (\<lambda>a. bind_err (to_float y) (\<lambda>b. Inr (PyFloat (float_add a b))))"

fun py_sub :: "pynum \<Rightarrow> pynum \<Rightarrow> py_error + pynum" where
  "py_sub (PyInt a) (PyInt b) = Inr (PyInt (a - b))"
| "py_sub x y =
     bind_err (to_float x) (\<lambda>a. bind_err (to_float y) (\<lambda>b. Inr (PyFloat (float_sub a b))))"

fun py_mul :: "pynum \<Rightarrow> pynum \<Rightarrow> py_error + pynum" where
  "py_mul (PyInt a) (PyInt b) = Inr (PyInt (a * b))"
| "py_mul x y =
     bind_err (to_float x) (\<lambda>a. bind_err (to_float y) (\<lambda>b. Inr (PyFloat (float_mul a b))))"

text \<open>
  \<open>x / y\<close>: the quotient of two \<open>int\<close>s is their exact quotient rounded to a double, and
  raises \<open>OverflowError\<close> when that is out of range.
\<close>

fun py_truediv :: "pynum \<Rightarrow> pynum \<Rightarrow> py_error + pynum" where
  "py_truediv (PyInt a) (PyInt b) =
     (if b = 0 then Inl ZeroDivisionError
      else (case to_double (of_int a / of_int b) of
              Finite v \<Rightarrow> Inr (PyFloat (Finite v))
            | _ \<Rightarrow> Inl OverflowError))"
| "py_truediv x y =
     bind_err (to_float x) (\<lambda>a. bind_err (to_float y) (\<lambda>b.
     bind_err (float_truediv a b) (\<lambda>q. Inr (PyFloat q))))"

fun py_abs :: "pynum \<Rightarrow> pynum" where
  "py_abs (PyInt n) = PyInt \<bar>n\<bar>"
| "py_abs (PyFloat f) = PyFloat (float_abs f)"

text \<open>Comparisons between numbers compare the exact values, without a conversion.\<close>

fun exact_value :: "pynum \<Rightarrow> pyfloat" where
  "exact_value (PyInt n) = Finite (of_int n)"
| "exact_value (PyFloat f) = f"

definition py_lt :: "pynum \<Rightarrow> pynum \<Rightarrow> bool" where
  "py_lt x y = float_lt (exact_value x) (exact_value y)"

definition py_eq :: "pynum \<Rightarrow> pynum \<Rightarrow> bool" where
  "py_eq x y = float_eq (exact_value x) (exact_value y)"

definition py_le :: "pynum \<Rightarrow> pynum \<Rightarrow> bool" where
  "py_le x y = (py_lt x y \<or> py_eq x y)"

definition py_gt :: "pynum \<Rightarrow> pynum \<Rightarrow> bool" where
  "py_gt x y = py_lt y x"

definition py_ge :: "pynum \<Rightarrow> pynum \<Rightarrow> bool" where
  "py_ge x y = py_le y x"

text \<open>\<open>min(x, y)\<close> keeps its first argument unless the second is strictly smaller.\<close>

definition py_min :: "pynum \<Rightarrow> pynum \<Rightarrow> pynum" where
  "py_min x y = (if py_lt y x then y else x)"

text \<open>
  \<open>round(x, n)\<close> for \<open>n \<ge> 0\<close>: an \<open>int\<close> is returned as it is; a finite float is rounded to
  the nearest multiple of \<open>10 ^ (- n)\<close>, a tie going to the even neighbour, and the result
  is the double nearest to that decimal; an infinity and NaN are returned as they are.
\<close>

fun py_round :: "pynum \<Rightarrow> nat \<Rightarrow> pynum" where
  "py_round (PyInt k) n = PyInt k"
| "py_round (PyFloat (Finite x)) n =
     PyFloat (to_double (of_int (round_half_even (x * 10 ^ n)) / 10 ^ n))"
| "py_round (PyFloat f) n = PyFloat f"

subsection \<open>The random source\<close>

text \<open>
  The module-level generator of \<open>random\<close> is the only state the program has. It is the
  stream of the values \<open>random.random()\<close> will return, each a float in \<open>[0, 1)\<close>; a call
  takes the head and leaves the tail. \<open>random.uniform(a, b)\<close> is
  \<open>a + (b - a) * random()\<close>.
\<close>

type_synonym rng = "real stream"

definition random_random :: "rng \<Rightarrow> pynum \<times> rng" where
  "random_random g = (PyFloat (Finite (shd g)), stl g)"

definition random_uniform :: "pynum \<Rightarrow> pynum \<Rightarrow> rng \<Rightarrow> py_error + (pynum \<times> rng)" where
  "random_uniform a b g =
     bind_err (py_sub b a) (\<lambda>width.
       let (u, g1) = random_random g
       in bind_err (py_mul width u) (\<lambda>offset.
          bind_err (py_add a offset) (\<lambda>r. Inr (r, g1))))"

subsection \<open>Data\<close>

text \<open>
  The dictionaries with one fixed set of keys are records. The advice dictionary has
  different keys in its two branches, so it is a map from key to value. The request is a
  JSON object whose members are numbers.
\<close>

record cas =
  critical_ttc_threshold :: pynum
  trigger_distance :: pynum

record car =
  speed :: pynum
  position :: pynum

datatype pyval = PStr string | PNum pynum | PBool bool | PList "string list"

type_synonym advice = "string \<rightharpoonup> pyval"

record sim_result =
  collision_avoided :: bool
  min_distance :: pynum
  outcome :: string

record response =
  resp_distance :: pynum
  resp_ttc :: pynum
  resp_avoidance_advice :: advice
  resp_simulation_result :: sim_result
  resp_car_a :: car
  resp_car_b :: car

record scenario =
  scen_speed_a :: pynum
  scen_speed_b :: pynum
  scen_speed_a_ms :: pynum
  scen_speed_b_ms :: pynum

text \<open>The operand of an arithmetic operator: a number, or a bool read as 0 or 1.\<close>

fun py_num :: "pyval \<Rightarrow> py_error + pynum" where
  "py_num (PNum x) = Inr x"
| "py_num (PBool b) = Inr (PyInt (if b then 1 else 0))"
| "py_num v = Inl TypeError"

definition dict_get :: "('k \<rightharpoonup> 'v) \<Rightarrow> 'k \<Rightarrow> py_error + 'v" where
  "dict_get d k = (case d k of None \<Rightarrow> Inl KeyError | Some v \<Rightarrow> Inr v)"

definition dict_get_default :: "('k \<rightharpoonup> 'v) \<Rightarrow> 'k \<Rightarrow> 'v \<Rightarrow> 'v" where
  "dict_get_default d k dflt = (case d k of None \<Rightarrow> dflt | Some v \<Rightarrow> v)"

subsection \<open>class CollisionAvoidanceSystem\<close>

definition CollisionAvoidanceSystem :: cas where
  "CollisionAvoidanceSystem =
     \<lparr>critical_ttc_threshold = PyInt 10, trigger_distance = PyInt 500\<rparr>"

definition calculate_ttc :: "cas \<Rightarrow> pynum \<Rightarrow> pynum \<Rightarrow> pynum \<Rightarrow> py_error + pynum" where
  "calculate_ttc self distance speed_a speed_b =
     bind_err (py_add speed_a speed_b) (\<lambda>closing.
       if py_le closing (PyInt 0) then Inr (PyFloat PosInf)
       else bind_err (py_add speed_a speed_b) (\<lambda>divisor. py_truediv distance divisor))"

definition calculate_avoidance_maneuver :: "cas \<Rightarrow> car \<Rightarrow> car \<Rightarrow> pynum \<Rightarrow> advice" where
  "calculate_avoidance_maneuver self car_a car_b ttc =
     (if py_gt ttc (critical_ttc_threshold self) then
        [''status'' \<mapsto> PStr ''safe'',
         ''alert_level'' \<mapsto> PStr ''none'',
         ''advice'' \<mapsto> PStr ''Maintain safe distance'']
      else
        let alert_level = (if py_le ttc (PyInt 5) then ''critical'' else ''warning'');
            maneuvers = [''Both vehicles reduce speed immediately''] @
              (if py_ge (speed car_a) (speed car_b)
               then [''Vehicle A: Steer right onto shoulder'',
                     ''Vehicle B: Maintain course, prepare to brake'']
               else [''Vehicle B: Steer left onto shoulder'',
                     ''Vehicle A: Maintain course, prepare to brake''])
        in [''status'' \<mapsto> PStr ''collision_imminent'',
            ''alert_level'' \<mapsto> PStr alert_level,
            ''ttc'' \<mapsto> PNum (py_round ttc 2),
            ''maneuvers'' \<mapsto> PList maneuvers,
            ''safe_maneuver_applied'' \<mapsto> PBool True])"

text \<open>Line 66: \<open>min(0.95, 0.7 + (avoidance_data["ttc"] / 20))\<close>, on the value read.\<close>

definition success_probability :: "pyval \<Rightarrow> py_error + pynum" where
  "success_probability v =
     bind_err (py_num v) (\<lambda>t.
     bind_err (py_truediv t (PyInt 20)) (\<lambda>q.
     bind_err (py_add (float_literal (7 / 10)) q) (\<lambda>s.
       Inr (py_min (float_literal (95 / 100)) s))))"

definition simulate_avoidance ::
    "cas \<Rightarrow> car \<Rightarrow> car \<Rightarrow> advice \<Rightarrow> rng \<Rightarrow> py_error + (sim_result \<times> rng)" where
  "simulate_avoidance self car_a car_b avoidance_data g =
     bind_err (dict_get avoidance_data ''status'') (\<lambda>status.
       if status = PStr ''safe'' then
         bind_err (random_uniform (PyInt 50) (PyInt 100) g) (\<lambda>(m, g1).
           Inr (\<lparr>collision_avoided = True, min_distance = m,
                  outcome = ''Safe passage''\<rparr>, g1))
       else
         bind_err (dict_get avoidance_data ''ttc'') (\<lambda>t.
         bind_err (success_probability t) (\<lambda>p.
           let (u, g1) = random_random g;
               avoided = py_lt u p
           in if avoided then
                bind_err (random_uniform (PyInt 5) (PyInt 20) g1) (\<lambda>(m, g2).
                  Inr (\<lparr>collision_avoided = avoided, min_distance = m,
                         outcome = ''Close call - collision avoided''\<rparr>, g2))
              else
                Inr (\<lparr>collision_avoided = avoided, min_distance = PyInt 0,
                       outcome = ''COLLISION OCCURRED''\<rparr>, g1))))"

subsection \<open>The handlers\<close>

definition cas_system :: cas where
  "cas_system = CollisionAvoidanceSystem"

text \<open>
  \<open>calculate_collision\<close> reads the request's JSON object, here a map from field name to
  number, and returns the dictionary it hands to \<open>jsonify\<close>.
\<close>

definition calculate_collision ::
    "(string \<rightharpoonup> pynum) \<Rightarrow> rng \<Rightarrow> py_error + (response \<times> rng)" where
  "calculate_collision data g =
     (let car_a = \<lparr>speed = dict_get_default data ''speed_a'' (PyInt 0),
                   position = dict_get_default data ''position_a'' (PyInt 0)\<rparr>;
          car_b = \<lparr>speed = dict_get_default data ''speed_b'' (PyInt 0),
                   position = dict_get_default data ''position_b'' (PyInt 500)\<rparr>
      in bind_err (py_sub (position car_b) (position car_a)) (\<lambda>difference.
           let distance = py_abs difference
           in bind_err (calculate_ttc cas_system distance (speed car_a) (speed car_b)) (\<lambda>ttc.
                let avoidance_data = calculate_avoidance_maneuver cas_system car_a car_b ttc
                in bind_err (simulate_avoidance cas_system car_a car_b avoidance_data g)
                     (\<lambda>(simulation_result, g1).
                        Inr (\<lparr>resp_distance = py_round distance 2,
                               resp_ttc = py_round ttc 2,
                               resp_avoidance_advice = avoidance_data,
                               resp_simulation_result = simulation_result,
                               resp_car_a = car_a,
                               resp_car_b = car_b\<rparr>, g1)))))"

definition generate_random_scenario :: "rng \<Rightarrow> py_error + (scenario \<times> rng)" where
  "generate_random_scenario g =
     bind_err (random_uniform (PyInt 60) (PyInt 120) g) (\<lambda>(speed_a, g1).
     bind_err (random_uniform (PyInt 60) (PyInt 120) g1) (\<lambda>(speed_b, g2).
     bind_err (py_truediv speed_a (float_literal (36 / 10))) (\<lambda>speed_a_ms.
     bind_err (py_truediv speed_b (float_literal (36 / 10))) (\<lambda>speed_b_ms.
       Inr (\<lparr>scen_speed_a = py_round speed_a 1,
              scen_speed_b = py_round speed_b 1,
              scen_speed_a_ms = py_round speed_a_ms 1,
              scen_speed_b_ms = py_round speed_b_ms 1\<rparr>, g2)))))"

section \<open>Rounding to a double\<close>

lemma round_half_even_of_int [simp]: "round_half_even (of_int k) = k"
  by (simp add: round_half_even_def)

lemma round_half_even_bounds:
  assumes "of_int a \<le> y" and "y \<le> of_int b"
  shows "a \<le> round_half_even y \<and> round_half_even y \<le> b"
proof -
  have lo: "a \<le> \<lfloor>y\<rfloor>" using assms(1) by (simp add: le_floor_iff)
  have hi: "\<lfloor>y\<rfloor> \<le> b" using assms(2) by (simp add: floor_le_iff)
  have top: "round_half_even y = \<lfloor>y\<rfloor>" if "\<lfloor>y\<rfloor> = b"
  proof -
    from that assms(2) have "y \<le> of_int \<lfloor>y\<rfloor>" by simp
    then have "y - of_int \<lfloor>y\<rfloor> \<le> 0" by simp
    then show ?thesis by (simp add: round_half_even_def Let_def)
  qed
  have step: "round_half_even y = \<lfloor>y\<rfloor> \<or> round_half_even y = \<lfloor>y\<rfloor> + 1"
    by (simp add: round_half_even_def Let_def)
  show ?thesis
  proof (cases "\<lfloor>y\<rfloor> = b")
    case True
    with top lo show ?thesis by simp
  next
    case False
    with hi have "\<lfloor>y\<rfloor> + 1 \<le> b" by simp
    with step lo show ?thesis by auto
  qed
qed

lemma round_half_even_mono:
  assumes "x \<le> y"
  shows "round_half_even x \<le> round_half_even y"
proof -
  have "round_half_even x \<le> round_half_even (of_int (round_half_even y))" if "\<lfloor>x\<rfloor> < \<lfloor>y\<rfloor>"
  proof -
    have "x \<le> of_int \<lfloor>y\<rfloor>" using that by (simp add: floor_less_iff less_imp_le; linarith)
    then have "round_half_even x \<le> \<lfloor>y\<rfloor>"
      using round_half_even_bounds [of "\<lfloor>x\<rfloor>" x "\<lfloor>y\<rfloor>"] by simp
    moreover have "\<lfloor>y\<rfloor> \<le> round_half_even y"
      using round_half_even_bounds [of "\<lfloor>y\<rfloor>" y "\<lfloor>y\<rfloor> + 1"] by (simp; linarith)
    ultimately show ?thesis by simp
  qed
  moreover have "round_half_even x \<le> round_half_even y" if "\<lfloor>x\<rfloor> = \<lfloor>y\<rfloor>"
    using that assms by (auto simp: round_half_even_def Let_def)
  moreover have "\<lfloor>x\<rfloor> \<le> \<lfloor>y\<rfloor>" using assms by (rule floor_mono)
  ultimately show ?thesis by fastforce
qed

lemma binade_bounds:
  assumes "x \<noteq> 0"
  shows "2 powi binade x \<le> \<bar>x\<bar> \<and> \<bar>x\<bar> < 2 powi (binade x + 1)"
proof (cases "1 \<le> \<bar>x\<bar>")
  case True
  let ?n = "\<lfloor>\<bar>x\<bar>\<rfloor>"
  have n: "0 < ?n" using True by simp
  have b: "1 \<le> bitlen ?n" using n bitlen_eq_zero_iff [of ?n] bitlen_nonneg [of ?n]
    by (cases "bitlen ?n = 0") auto
  from bitlen_bounds [OF n] have lo: "2 ^ nat (bitlen ?n - 1) \<le> ?n"
    and hi: "?n < 2 ^ nat (bitlen ?n)" by simp_all
  have "(2::real) ^ nat (bitlen ?n - 1) \<le> of_int ?n"
    using lo by (metis of_int_le_iff of_int_numeral of_int_power)
  also have "\<dots> \<le> \<bar>x\<bar>" by simp
  finally have 1: "2 powi (bitlen ?n - 1) \<le> \<bar>x\<bar>"
    using b by (simp add: power_int_nonneg_exp)
  have "?n + 1 \<le> 2 ^ nat (bitlen ?n)" using hi by simp
  then have "of_int (?n + 1) \<le> (2::real) ^ nat (bitlen ?n)"
    by (metis of_int_le_iff of_int_numeral of_int_power)
  moreover have "\<bar>x\<bar> < of_int (?n + 1)" by (simp; linarith)
  ultimately have "\<bar>x\<bar> < 2 ^ nat (bitlen ?n)" by linarith
  then have 2: "\<bar>x\<bar> < 2 powi (bitlen ?n - 1 + 1)"
    using b by (simp add: power_int_nonneg_exp)
  from 1 2 True show ?thesis by (simp add: binade_def)
next
  case False
  let ?a = "\<bar>x\<bar>"
  let ?n = "\<lceil>1 / ?a\<rceil>"
  have a: "0 < ?a" "?a < 1" using assms False by simp_all
  then have inv: "1 < 1 / ?a" by simp
  then have n: "2 \<le> ?n" by (simp add: le_ceiling_iff; linarith)
  then have n1: "0 < ?n - 1" by simp
  let ?j = "bitlen (?n - 1)"
  have j: "1 \<le> ?j" using n1 bitlen_eq_zero_iff [of "?n - 1"] bitlen_nonneg [of "?n - 1"]
    by (cases "?j = 0") auto
  from bitlen_bounds [OF n1] have lo: "2 ^ nat (?j - 1) \<le> ?n - 1"
    and hi: "?n - 1 < 2 ^ nat ?j" by simp_all
  have "?n \<le> 2 ^ nat ?j" using hi by simp
  then have "of_int ?n \<le> (2::real) ^ nat ?j"
    by (metis of_int_le_iff of_int_numeral of_int_power)
  moreover have "1 / ?a \<le> of_int ?n" by simp
  ultimately have "1 / ?a \<le> 2 ^ nat ?j" by linarith
  then have "1 \<le> 2 ^ nat ?j * ?a" using a by (simp add: field_simps)
  then have "1 / 2 ^ nat ?j \<le> ?a" by (simp add: field_simps)
  then have 1: "2 powi (- ?j) \<le> ?a"
    using j by (simp add: power_int_minus_divide power_int_nonneg_exp)
  have "(2::real) ^ nat (?j - 1) \<le> of_int (?n - 1)"
    using lo by (metis of_int_le_iff of_int_numeral of_int_power)
  moreover have "of_int (?n - 1) < 1 / ?a" by (simp; linarith)
  ultimately have "(2::real) ^ nat (?j - 1) < 1 / ?a" by linarith
  then have "2 ^ nat (?j - 1) * ?a < 1" using a by (simp add: field_simps)
  then have "?a < 1 / 2 ^ nat (?j - 1)" by (simp add: field_simps)
  moreover have "(2::real) powi (- ?j + 1) = 1 / 2 ^ nat (?j - 1)"
    using j power_int_minus_divide [of "2::real" "?j - 1"] by (simp add: power_int_nonneg_exp)
  ultimately have 2: "?a < 2 powi (- ?j + 1)" by simp
  from 1 2 False show ?thesis by (simp add: binade_def)
qed

lemma binade_eqI:
  assumes "2 powi k \<le> \<bar>x\<bar>" and "\<bar>x\<bar> < 2 powi (k + 1)"
  shows "binade x = k"
proof -
  have pos: "0 < \<bar>x\<bar>" using assms(1) zero_less_power_int [of "2::real" k] by linarith
  then have nz: "x \<noteq> 0" by simp
  note b = binade_bounds [OF nz]
  have "\<not> binade x < k"
  proof
    assume "binade x < k"
    then have "binade x + 1 \<le> k" by simp
    then have "(2::real) powi (binade x + 1) \<le> 2 powi k" by (simp add: power_int_increasing)
    with b assms show False by linarith
  qed
  moreover have "\<not> k < binade x"
  proof
    assume "k < binade x"
    then have "k + 1 \<le> binade x" by simp
    then have "(2::real) powi (k + 1) \<le> 2 powi binade x" by (simp add: power_int_increasing)
    with b assms show False by linarith
  qed
  ultimately show ?thesis by simp
qed

lemma binade_mono:
  assumes "x \<noteq> 0" and "\<bar>x\<bar> \<le> \<bar>y\<bar>"
  shows "binade x \<le> binade y"
proof (rule ccontr)
  assume "\<not> binade x \<le> binade y"
  then have "binade y + 1 \<le> binade x" by simp
  then have "(2::real) powi (binade y + 1) \<le> 2 powi binade x" by (simp add: power_int_increasing)
  moreover have "y \<noteq> 0" using assms by auto
  ultimately show False using binade_bounds [OF assms(1)] binade_bounds [OF \<open>y \<noteq> 0\<close>] assms(2)
    by linarith
qed

lemma round_half_even_0 [simp]: "round_half_even 0 = 0"
  using round_half_even_of_int [of 0] by (simp del: round_half_even_of_int)

lemma round_half_even_1 [simp]: "round_half_even 1 = 1"
  using round_half_even_of_int [of 1] by (simp del: round_half_even_of_int)

lemma round_half_even_numeral [simp]: "round_half_even (numeral k) = numeral k"
  using round_half_even_of_int [of "numeral k"] by (simp del: round_half_even_of_int)

lemma round_half_even_neg_numeral [simp]: "round_half_even (- numeral k) = - numeral k"
  using round_half_even_of_int [of "- numeral k"] by (simp del: round_half_even_of_int)

lemma round_half_even_lower: "of_int a \<le> y \<Longrightarrow> a \<le> round_half_even y"
  using round_half_even_mono [of "of_int a" y] by simp

lemma round_half_even_upper: "y \<le> of_int b \<Longrightarrow> round_half_even y \<le> b"
  using round_half_even_mono [of y "of_int b"] by simp

lemma grid_lower:
  assumes "of_int a * 2 powi e \<le> x"
  shows "of_int a * 2 powi e \<le> of_int (round_half_even (x / 2 powi e)) * (2::real) powi e"
proof -
  have p: "(0::real) < 2 powi e" by simp
  from assms have "of_int a \<le> x / 2 powi e" using p by (simp add: pos_le_divide_eq)
  then have "a \<le> round_half_even (x / 2 powi e)" by (rule round_half_even_lower)
  then have "(of_int a :: real) \<le> of_int (round_half_even (x / 2 powi e))" by simp
  then show ?thesis using p by (simp add: mult_right_mono)
qed

lemma grid_upper:
  assumes "x \<le> of_int b * 2 powi e"
  shows "of_int (round_half_even (x / 2 powi e)) * 2 powi e \<le> of_int b * (2::real) powi e"
proof -
  have p: "(0::real) < 2 powi e" by simp
  from assms have "x / 2 powi e \<le> of_int b" using p by (simp add: pos_divide_le_eq)
  then have "round_half_even (x / 2 powi e) \<le> b" by (rule round_half_even_upper)
  then have "(of_int (round_half_even (x / 2 powi e)) :: real) \<le> of_int b" by simp
  then show ?thesis using p by (simp add: mult_right_mono)
qed

lemma grid_mono:
  assumes "x \<le> y"
  shows "of_int (round_half_even (x / 2 powi e)) * 2 powi e
       \<le> of_int (round_half_even (y / 2 powi e)) * (2::real) powi e"
proof -
  have p: "(0::real) < 2 powi e" by simp
  from assms have "x / 2 powi e \<le> y / 2 powi e" using p by (simp add: divide_right_mono)
  then have "round_half_even (x / 2 powi e) \<le> round_half_even (y / 2 powi e)"
    by (rule round_half_even_mono)
  then have "(of_int (round_half_even (x / 2 powi e)) :: real)
      \<le> of_int (round_half_even (y / 2 powi e))" by simp
  then show ?thesis using p by (simp add: mult_right_mono)
qed

lemma pow2_on_grid:
  assumes "e \<le> k"
  shows "(2::real) powi k = of_int (2 ^ nat (k - e)) * 2 powi e"
proof -
  have "(2::real) powi k = 2 powi ((k - e) + e)" by simp
  also have "\<dots> = 2 powi (k - e) * 2 powi e" by (rule power_int_add) simp
  also have "(2::real) powi (k - e) = 2 ^ nat (k - e)"
    using assms by (simp add: power_int_nonneg_exp)
  finally show ?thesis by simp
qed

lemma round_to_double_0 [simp]: "round_to_double 0 = 0"
  by (simp add: round_to_double_def)

lemma round_to_double_nonneg:
  assumes "0 \<le> x"
  shows "0 \<le> round_to_double x"
  using grid_lower [of 0 "ulp_exp x" x] assms by (simp add: round_to_double_def)

lemma round_to_double_nonpos:
  assumes "x \<le> 0"
  shows "round_to_double x \<le> 0"
  using grid_upper [of x 0 "ulp_exp x"] assms by (simp add: round_to_double_def)

lemma ulp_exp_le_binade: "- 1074 < ulp_exp x \<Longrightarrow> ulp_exp x = binade x - 52"
  by (simp add: ulp_exp_def max_def split: if_splits)

lemma round_to_double_mono_pos:
  assumes "0 < x" and "x \<le> y"
  shows "round_to_double x \<le> round_to_double y"
proof (cases "ulp_exp x = ulp_exp y")
  case True
  then show ?thesis using grid_mono [OF assms(2)] by (simp add: round_to_double_def)
next
  case False
  have nz: "x \<noteq> 0" "y \<noteq> 0" using assms by simp_all
  have bm: "binade x \<le> binade y" using assms by (intro binade_mono) simp_all
  then have "ulp_exp x \<le> ulp_exp y" by (simp add: ulp_exp_def max_def)
  with False have lt: "ulp_exp x < ulp_exp y" by simp
  have "- 1074 \<le> ulp_exp x" by (simp add: ulp_exp_def)
  with lt have ey: "ulp_exp y = binade y - 52"
    by (intro ulp_exp_le_binade) simp
  have "binade x - 52 \<le> ulp_exp x" by (simp add: ulp_exp_def)
  with lt ey have bx: "binade x + 1 \<le> binade y" by simp
  let ?s = "(2::real) powi binade y"
  have sx: "?s = of_int (2 ^ nat (binade y - ulp_exp x)) * 2 powi ulp_exp x"
    using lt ey by (intro pow2_on_grid) simp
  have sy: "?s = of_int (2 ^ nat (binade y - ulp_exp y)) * 2 powi ulp_exp y"
    using ey by (intro pow2_on_grid) simp
  have "x < 2 powi (binade x + 1)" using binade_bounds [OF nz(1)] assms(1) by simp
  also have "\<dots> \<le> ?s" using bx by (simp add: power_int_increasing)
  finally have "x \<le> ?s" by simp
  then have 1: "round_to_double x \<le> ?s"
    unfolding round_to_double_def using grid_upper [of x _ "ulp_exp x"] sx by metis
  have "?s \<le> y" using binade_bounds [OF nz(2)] assms by simp
  then have 2: "?s \<le> round_to_double y"
    unfolding round_to_double_def using grid_lower [of _ "ulp_exp y" y] sy by metis
  from 1 2 show ?thesis by simp
qed

lemma round_to_double_mono_neg:
  assumes "y < 0" and "x \<le> y"
  shows "round_to_double x \<le> round_to_double y"
proof (cases "ulp_exp x = ulp_exp y")
  case True
  then show ?thesis using grid_mono [OF assms(2)] by (simp add: round_to_double_def)
next
  case False
  have nz: "x \<noteq> 0" "y \<noteq> 0" using assms by simp_all
  have bm: "binade y \<le> binade x" using assms by (intro binade_mono) simp_all
  then have "ulp_exp y \<le> ulp_exp x" by (simp add: ulp_exp_def max_def)
  with False have lt: "ulp_exp y < ulp_exp x" by simp
  have "- 1074 \<le> ulp_exp y" by (simp add: ulp_exp_def)
  with lt have ex: "ulp_exp x = binade x - 52"
    by (intro ulp_exp_le_binade) simp
  have "binade y - 52 \<le> ulp_exp y" by (simp add: ulp_exp_def)
  with lt ex have bx: "binade y + 1 \<le> binade x" by simp
  let ?s = "(2::real) powi binade x"
  have sy: "- ?s = of_int (- (2 ^ nat (binade x - ulp_exp y))) * 2 powi ulp_exp y"
    using lt ex pow2_on_grid [of "ulp_exp y" "binade x"] by simp
  have sx: "- ?s = of_int (- (2 ^ nat (binade x - ulp_exp x))) * 2 powi ulp_exp x"
    using ex pow2_on_grid [of "ulp_exp x" "binade x"] by simp
  have "- y < 2 powi (binade y + 1)" using binade_bounds [OF nz(2)] assms(1) by simp
  also have "\<dots> \<le> ?s" using bx by (simp add: power_int_increasing)
  finally have "- ?s \<le> y" by simp
  then have 1: "- ?s \<le> round_to_double y"
    unfolding round_to_double_def using grid_lower [of _ "ulp_exp y" y] sy by metis
  have "?s \<le> - x" using binade_bounds [OF nz(1)] assms by simp
  then have "x \<le> - ?s" by simp
  then have 2: "round_to_double x \<le> - ?s"
    unfolding round_to_double_def using grid_upper [of x _ "ulp_exp x"] sx by metis
  from 1 2 show ?thesis by simp
qed

lemma round_to_double_mono:
  assumes "x \<le> y"
  shows "round_to_double x \<le> round_to_double y"
proof -
  consider "0 < x" | "y < 0" | "x \<le> 0" "0 \<le> y" by linarith
  then show ?thesis
  proof cases
    case 1
    then show ?thesis using assms by (rule round_to_double_mono_pos)
  next
    case 2
    then show ?thesis using assms by (rule round_to_double_mono_neg)
  next
    case 3
    then show ?thesis
      using round_to_double_nonpos [of x] round_to_double_nonneg [of y] by simp
  qed
qed

lemma round_to_double_eval:
  assumes "2 powi k \<le> \<bar>x\<bar>" and "\<bar>x\<bar> < 2 powi (k + 1)"
  shows "round_to_double x =
           of_int (round_half_even (x / 2 powi (max (k - 52) (- 1074))))
             * 2 powi (max (k - 52) (- 1074))"
  using binade_eqI [OF assms] by (simp add: round_to_double_def ulp_exp_def)

lemma round_to_double_fixed:
  assumes "2 powi k \<le> \<bar>x\<bar>" and "\<bar>x\<bar> < 2 powi (k + 1)"
    and "x = of_int n * 2 powi (max (k - 52) (- 1074))"
  shows "round_to_double x = x"
proof -
  have "x / 2 powi (max (k - 52) (- 1074)) = of_int n"
    using assms(3) by simp
  then show ?thesis
    using round_to_double_eval [OF assms(1,2)] assms(3) by simp
qed

lemma pow2_fixed:
  assumes "- 1074 \<le> k"
  shows "round_to_double (2 powi k) = 2 powi k"
proof -
  have b: "(2::real) powi k \<le> \<bar>2 powi k\<bar>" "\<bar>(2::real) powi k\<bar> < 2 powi (k + 1)"
    by (simp_all add: power_int_strict_increasing)
  have "max (k - 52) (- 1074) \<le> k" using assms by simp
  then have "(2::real) powi k =
      of_int (2 ^ nat (k - max (k - 52) (- 1074))) * 2 powi (max (k - 52) (- 1074))"
    by (rule pow2_on_grid)
  then show ?thesis using round_to_double_fixed [OF b] by blast
qed

lemma neg_pow2_fixed:
  assumes "- 1074 \<le> k"
  shows "round_to_double (- (2 powi k)) = - (2 powi k)"
proof -
  have b: "(2::real) powi k \<le> \<bar>- (2 powi k)\<bar>" "\<bar>- ((2::real) powi k)\<bar> < 2 powi (k + 1)"
    by (simp_all add: power_int_strict_increasing)
  have "max (k - 52) (- 1074) \<le> k" using assms by simp
  then have "(2::real) powi k =
      of_int (2 ^ nat (k - max (k - 52) (- 1074))) * 2 powi (max (k - 52) (- 1074))"
    by (rule pow2_on_grid)
  then have "- ((2::real) powi k) =
      of_int (- (2 ^ nat (k - max (k - 52) (- 1074)))) * 2 powi (max (k - 52) (- 1074))"
    by simp
  then show ?thesis using round_to_double_fixed [OF b] by blast
qed

lemma round_to_double_abs_le:
  assumes "\<bar>x\<bar> \<le> 2 powi k" and "- 1074 \<le> k"
  shows "\<bar>round_to_double x\<bar> \<le> 2 powi k"
proof -
  from assms(1) have "- (2 powi k) \<le> x" "x \<le> 2 powi k" by simp_all
  then have "round_to_double (- (2 powi k)) \<le> round_to_double x"
    "round_to_double x \<le> round_to_double (2 powi k)"
    by (simp_all add: round_to_double_mono)
  then show ?thesis
    using pow2_fixed [OF assms(2)] neg_pow2_fixed [OF assms(2)] by simp
qed

lemma to_double_finite:
  assumes "\<bar>x\<bar> \<le> 2 powi k" and "- 1074 \<le> k" and "k \<le> 1023"
  shows "to_double x = Finite (round_to_double x)"
proof -
  have "\<bar>round_to_double x\<bar> \<le> 2 powi k" using assms(1,2) by (rule round_to_double_abs_le)
  also have "(2::real) powi k \<le> 2 powi 1023"
    using assms(3) by (intro power_int_increasing) simp_all
  also have "(2::real) powi 1023 < 2 powi 1024"
    by (intro power_int_strict_increasing) simp_all
  finally have "\<bar>round_to_double x\<bar> < 2 ^ 1024" by (simp only: power_int_numeral)
  then show ?thesis by (auto simp add: to_double_def Let_def simp del: power_numeral)
qed

lemma to_double_eval:
  assumes "2 powi k \<le> \<bar>x\<bar>" and "\<bar>x\<bar> < 2 powi (k + 1)" and "- 1075 \<le> k" and "k \<le> 1022"
  shows "to_double x =
           Finite (of_int (round_half_even (x / 2 powi (max (k - 52) (- 1074))))
                     * 2 powi (max (k - 52) (- 1074)))"
proof -
  have "to_double x = Finite (round_to_double x)"
    using assms by (intro to_double_finite [of x "k + 1"]) simp_all
  then show ?thesis using round_to_double_eval [OF assms(1,2)] by simp
qed

lemma to_double_0 [simp]: "to_double 0 = Finite 0"
  using to_double_finite [of 0 0] by simp

lemma round_to_double_of_int:
  assumes "\<bar>n\<bar> < 2 ^ 53"
  shows "round_to_double (of_int n) = of_int n"
proof (cases "n = 0")
  case True
  then show ?thesis by simp
next
  case False
  let ?x = "of_int n :: real"
  let ?k = "binade ?x"
  have nz: "?x \<noteq> 0" using False by simp
  have "2 powi ?k \<le> \<bar>?x\<bar>" using binade_bounds [OF nz] by simp
  also have "\<bar>?x\<bar> < 2 powi 53" using assms by (simp flip: of_int_abs)
  finally have "(2::real) powi ?k < 2 powi 53" .
  have "?k < 53"
  proof (rule ccontr)
    assume "\<not> ?k < 53"
    then have "(2::real) powi 53 \<le> 2 powi ?k" by (intro power_int_increasing) simp_all
    with \<open>(2::real) powi ?k < 2 powi 53\<close> show False by simp
  qed
  then have e: "ulp_exp ?x \<le> 0" by (simp add: ulp_exp_def)
  have "(2::real) powi 0 = of_int (2 ^ nat (0 - ulp_exp ?x)) * 2 powi ulp_exp ?x"
    using e by (rule pow2_on_grid)
  then have "?x / 2 powi ulp_exp ?x = of_int (n * 2 ^ nat (0 - ulp_exp ?x))"
    by (simp add: field_simps)
  then have "round_half_even (?x / 2 powi ulp_exp ?x) = n * 2 ^ nat (0 - ulp_exp ?x)"
    by (simp only: round_half_even_of_int)
  then have "round_to_double ?x = of_int (n * 2 ^ nat (0 - ulp_exp ?x)) * 2 powi ulp_exp ?x"
    by (simp add: round_to_double_def)
  also have "\<dots> = ?x * (of_int (2 ^ nat (0 - ulp_exp ?x)) * 2 powi ulp_exp ?x)" by simp
  also have "\<dots> = ?x" using \<open>(2::real) powi 0 = _\<close> by simp
  finally show ?thesis .
qed

lemma to_double_of_int:
  assumes "\<bar>n\<bar> < 2 ^ 53"
  shows "to_double (of_int n) = Finite (of_int n)"
proof -
  have "\<bar>of_int n :: real\<bar> \<le> 2 ^ 53"
    using assms by (metis less_imp_le of_int_le_iff of_int_numeral of_int_power of_int_abs)
  then have "\<bar>of_int n :: real\<bar> \<le> 2 powi 53" by simp
  then have "to_double (of_int n) = Finite (round_to_double (of_int n))"
    by (rule to_double_finite) simp_all
  then show ?thesis using round_to_double_of_int [OF assms] by simp
qed

lemma float_of_int_small: "\<bar>n\<bar> < 2 ^ 53 \<Longrightarrow> float_of_int n = Inr (Finite (of_int n))"
  by (simp add: float_of_int_def to_double_of_int)

lemma to_double_between:
  assumes "of_int lo \<le> x" and "x \<le> of_int hi" and "\<bar>lo\<bar> < 2 ^ 53" and "\<bar>hi\<bar> < 2 ^ 53"
  shows "to_double x = Finite (round_to_double x)
       \<and> of_int lo \<le> round_to_double x \<and> round_to_double x \<le> of_int hi"
proof -
  have lo: "of_int lo \<le> round_to_double x"
    using round_to_double_mono [OF assms(1)] round_to_double_of_int [OF assms(3)] by simp
  have hi: "round_to_double x \<le> of_int hi"
    using round_to_double_mono [OF assms(2)] round_to_double_of_int [OF assms(4)] by simp
  have "\<bar>of_int lo :: real\<bar> \<le> 2 ^ 53" "\<bar>of_int hi :: real\<bar> \<le> 2 ^ 53"
    using assms(3,4) by (metis less_imp_le of_int_le_iff of_int_numeral of_int_power of_int_abs)+
  with assms(1,2) have "\<bar>x\<bar> \<le> 2 powi 53" by simp
  then have "to_double x = Finite (round_to_double x)"
    by (rule to_double_finite) simp_all
  with lo hi show ?thesis by simp
qed

section \<open>Facts about comparisons\<close>

lemma py_lt_PyInt [simp]: "py_lt (PyInt a) (PyInt b) = (a < b)"
  by (simp add: py_lt_def)

lemma py_le_PyInt [simp]: "py_le (PyInt a) (PyInt b) = (a \<le> b)"
  by (auto simp: py_le_def py_eq_def py_lt_def)

lemma py_lt_Finite [simp]: "py_lt (PyFloat (Finite x)) (PyFloat (Finite y)) = (x < y)"
  by (simp add: py_lt_def)

lemma py_le_Finite [simp]: "py_le (PyFloat (Finite x)) (PyFloat (Finite y)) = (x \<le> y)"
  by (auto simp: py_le_def py_eq_def py_lt_def)

lemma py_lt_Finite_PyInt [simp]: "py_lt (PyFloat (Finite x)) (PyInt b) = (x < of_int b)"
  by (simp add: py_lt_def)

lemma py_lt_PyInt_Finite [simp]: "py_lt (PyInt a) (PyFloat (Finite y)) = (of_int a < y)"
  by (simp add: py_lt_def)

lemma py_le_Finite_PyInt [simp]: "py_le (PyFloat (Finite x)) (PyInt b) = (x \<le> of_int b)"
  by (auto simp: py_le_def py_eq_def py_lt_def)

lemma py_le_PyInt_Finite [simp]: "py_le (PyInt a) (PyFloat (Finite y)) = (of_int a \<le> y)"
  by (auto simp: py_le_def py_eq_def py_lt_def)

lemma float_le_cases:
  "(float_lt x y \<or> float_eq x y) =
     (case (x, y) of
        (Finite a, Finite b) \<Rightarrow> a \<le> b
      | (NaN, _) \<Rightarrow> False
      | (_, NaN) \<Rightarrow> False
      | (NegInf, _) \<Rightarrow> True
      | (_, PosInf) \<Rightarrow> True
      | _ \<Rightarrow> False)"
  by (cases x; cases y) auto

lemma py_le_not_lt: "py_le x y \<Longrightarrow> \<not> py_lt y x"
  by (cases "exact_value x"; cases "exact_value y") (auto simp: py_le_def py_lt_def py_eq_def)

lemma py_le_trans: "py_le x y \<Longrightarrow> py_le y z \<Longrightarrow> py_le x z"
  by (cases "exact_value x"; cases "exact_value y"; cases "exact_value z")
    (auto simp: py_le_def py_lt_def py_eq_def)

lemma not_gt_if_le: "py_le t (PyInt x) \<Longrightarrow> x \<le> y \<Longrightarrow> \<not> py_gt t (PyInt y)"
  by (cases "exact_value t") (auto simp: py_le_def py_gt_def py_lt_def py_eq_def)

lemma not_le_if_lt: "py_lt (PyInt x) t \<Longrightarrow> \<not> py_le t (PyInt x)"
  by (cases "exact_value t") (auto simp: py_le_def py_lt_def py_eq_def)

section \<open>The advice\<close>

lemma threshold_cas_system [simp]: "critical_ttc_threshold cas_system = PyInt 10"
  by (simp add: cas_system_def CollisionAvoidanceSystem_def)

lemma advice_safe:
  "py_gt ttc (critical_ttc_threshold self) \<Longrightarrow>
   calculate_avoidance_maneuver self car_a car_b ttc =
     [''status'' \<mapsto> PStr ''safe'', ''alert_level'' \<mapsto> PStr ''none'',
      ''advice'' \<mapsto> PStr ''Maintain safe distance'']"
  by (simp add: calculate_avoidance_maneuver_def)

lemma advice_imminent:
  "\<not> py_gt ttc (critical_ttc_threshold self) \<Longrightarrow>
   calculate_avoidance_maneuver self car_a car_b ttc =
     [''status'' \<mapsto> PStr ''collision_imminent'',
      ''alert_level'' \<mapsto> PStr (if py_le ttc (PyInt 5) then ''critical'' else ''warning''),
      ''ttc'' \<mapsto> PNum (py_round ttc 2),
      ''maneuvers'' \<mapsto> PList (''Both vehicles reduce speed immediately'' #
         (if py_ge (speed car_a) (speed car_b)
          then [''Vehicle A: Steer right onto shoulder'',
                ''Vehicle B: Maintain course, prepare to brake'']
          else [''Vehicle B: Steer left onto shoulder'',
                ''Vehicle A: Maintain course, prepare to brake''])),
      ''safe_maneuver_applied'' \<mapsto> PBool True]"
  by (simp add: calculate_avoidance_maneuver_def Let_def)

text \<open>
  C2. For every ttc handed to \<open>calculate_avoidance_maneuver\<close>: above 10 the advice is
  \<open>safe\<close> with alert level \<open>none\<close> and has no \<open>maneuvers\<close> key; at or below 5 it is
  \<open>collision_imminent\<close> and \<open>critical\<close>; above 5 and at most 10 it is
  \<open>collision_imminent\<close> and \<open>warning\<close>.
\<close>

theorem calculate_avoidance_maneuver_levels:
  "(py_gt ttc (PyInt 10) \<longrightarrow>
      calculate_avoidance_maneuver cas_system car_a car_b ttc ''status'' = Some (PStr ''safe'')
      \<and> calculate_avoidance_maneuver cas_system car_a car_b ttc ''alert_level'' = Some (PStr ''none'')
      \<and> calculate_avoidance_maneuver cas_system car_a car_b ttc ''maneuvers'' = None)
   \<and> (py_le ttc (PyInt 5) \<longrightarrow>
      calculate_avoidance_maneuver cas_system car_a car_b ttc ''status'' = Some (PStr ''collision_imminent'')
      \<and> calculate_avoidance_maneuver cas_system car_a car_b ttc ''alert_level'' = Some (PStr ''critical''))
   \<and> (py_lt (PyInt 5) ttc \<and> py_le ttc (PyInt 10) \<longrightarrow>
      calculate_avoidance_maneuver cas_system car_a car_b ttc ''status'' = Some (PStr ''collision_imminent'')
      \<and> calculate_avoidance_maneuver cas_system car_a car_b ttc ''alert_level'' = Some (PStr ''warning''))"
proof (intro conjI impI)
  assume "py_gt ttc (PyInt 10)"
  then have safe: "py_gt ttc (critical_ttc_threshold cas_system)" by simp
  show "calculate_avoidance_maneuver cas_system car_a car_b ttc ''status'' = Some (PStr ''safe'')"
    by (simp add: advice_safe [OF safe])
  show "calculate_avoidance_maneuver cas_system car_a car_b ttc ''alert_level'' = Some (PStr ''none'')"
    by (simp add: advice_safe [OF safe])
  show "calculate_avoidance_maneuver cas_system car_a car_b ttc ''maneuvers'' = None"
    by (simp add: advice_safe [OF safe])
next
  assume le5: "py_le ttc (PyInt 5)"
  then have imm: "\<not> py_gt ttc (critical_ttc_threshold cas_system)"
    using not_gt_if_le [of ttc 5 10] by simp
  show "calculate_avoidance_maneuver cas_system car_a car_b ttc ''status'' = Some (PStr ''collision_imminent'')"
    by (simp add: advice_imminent [OF imm])
  show "calculate_avoidance_maneuver cas_system car_a car_b ttc ''alert_level'' = Some (PStr ''critical'')"
    using le5 by (simp add: advice_imminent [OF imm])
next
  assume mid: "py_lt (PyInt 5) ttc \<and> py_le ttc (PyInt 10)"
  then have imm: "\<not> py_gt ttc (critical_ttc_threshold cas_system)"
    using not_gt_if_le [of ttc 10 10] by simp
  from mid have gt5: "\<not> py_le ttc (PyInt 5)" by (simp add: not_le_if_lt)
  show "calculate_avoidance_maneuver cas_system car_a car_b ttc ''status'' = Some (PStr ''collision_imminent'')"
    by (simp add: advice_imminent [OF imm])
  show "calculate_avoidance_maneuver cas_system car_a car_b ttc ''alert_level'' = Some (PStr ''warning'')"
    using gt5 by (simp add: advice_imminent [OF imm])
qed

theorem calculate_avoidance_maneuver_levels_witness:
  "py_gt (PyFloat PosInf) (PyInt 10)
   \<and> calculate_avoidance_maneuver cas_system
        \<lparr>speed = PyInt 0, position = PyInt 0\<rparr> \<lparr>speed = PyInt 0, position = PyInt 500\<rparr>
        (PyFloat PosInf) ''status'' = Some (PStr ''safe'')
   \<and> calculate_avoidance_maneuver cas_system
        \<lparr>speed = PyInt 0, position = PyInt 0\<rparr> \<lparr>speed = PyInt 0, position = PyInt 500\<rparr>
        (PyFloat PosInf) ''maneuvers'' = None
   \<and> py_le (PyFloat (Finite 5)) (PyInt 5)
   \<and> calculate_avoidance_maneuver cas_system
        \<lparr>speed = PyInt 30, position = PyInt 0\<rparr> \<lparr>speed = PyInt 10, position = PyInt 200\<rparr>
        (PyFloat (Finite 5)) ''alert_level'' = Some (PStr ''critical'')
   \<and> py_lt (PyInt 5) (PyFloat (Finite 10)) \<and> py_le (PyFloat (Finite 10)) (PyInt 10)
   \<and> calculate_avoidance_maneuver cas_system
        \<lparr>speed = PyInt 30, position = PyInt 0\<rparr> \<lparr>speed = PyInt 10, position = PyInt 400\<rparr>
        (PyFloat (Finite 10)) ''alert_level'' = Some (PStr ''warning'')"
  using
    calculate_avoidance_maneuver_levels [of "PyFloat PosInf"
      "\<lparr>speed = PyInt 0, position = PyInt 0\<rparr>" "\<lparr>speed = PyInt 0, position = PyInt 500\<rparr>"]
    calculate_avoidance_maneuver_levels [of "PyFloat (Finite 5)"
      "\<lparr>speed = PyInt 30, position = PyInt 0\<rparr>" "\<lparr>speed = PyInt 10, position = PyInt 200\<rparr>"]
    calculate_avoidance_maneuver_levels [of "PyFloat (Finite 10)"
      "\<lparr>speed = PyInt 30, position = PyInt 0\<rparr>" "\<lparr>speed = PyInt 10, position = PyInt 400\<rparr>"]
  by (simp add: py_gt_def py_lt_def)

section \<open>The maneuvers\<close>

text \<open>
  C5. Every advice with status \<open>collision_imminent\<close>, which is what
  \<open>calculate_avoidance_maneuver\<close> returns for every ttc of at most 10, has exactly three
  maneuvers: "Both vehicles reduce speed immediately" first, then the two instructions
  for the vehicles.
\<close>

theorem collision_imminent_maneuvers:
  "(py_le ttc (PyInt 10) \<longrightarrow>
      calculate_avoidance_maneuver cas_system car_a car_b ttc ''status'' =
        Some (PStr ''collision_imminent''))
   \<and> (calculate_avoidance_maneuver cas_system car_a car_b ttc ''status'' =
        Some (PStr ''collision_imminent'') \<longrightarrow>
      (\<exists>m2 m3. calculate_avoidance_maneuver cas_system car_a car_b ttc ''maneuvers'' =
          Some (PList [''Both vehicles reduce speed immediately'', m2, m3])
        \<and> (m2 = ''Vehicle A: Steer right onto shoulder''
             \<and> m3 = ''Vehicle B: Maintain course, prepare to brake''
           \<or> m2 = ''Vehicle B: Steer left onto shoulder''
             \<and> m3 = ''Vehicle A: Maintain course, prepare to brake'')))"
proof (intro conjI impI)
  assume "py_le ttc (PyInt 10)"
  then have "\<not> py_gt ttc (critical_ttc_threshold cas_system)"
    using not_gt_if_le [of ttc 10 10] by simp
  then show "calculate_avoidance_maneuver cas_system car_a car_b ttc ''status'' =
        Some (PStr ''collision_imminent'')"
    by (simp add: advice_imminent)
next
  assume imm: "calculate_avoidance_maneuver cas_system car_a car_b ttc ''status'' =
        Some (PStr ''collision_imminent'')"
  have "\<not> py_gt ttc (critical_ttc_threshold cas_system)"
  proof
    assume "py_gt ttc (critical_ttc_threshold cas_system)"
    then have "calculate_avoidance_maneuver cas_system car_a car_b ttc ''status'' =
        Some (PStr ''safe'')"
      by (simp add: advice_safe del: threshold_cas_system)
    with imm show False by simp
  qed
  then show "\<exists>m2 m3. calculate_avoidance_maneuver cas_system car_a car_b ttc ''maneuvers'' =
          Some (PList [''Both vehicles reduce speed immediately'', m2, m3])
        \<and> (m2 = ''Vehicle A: Steer right onto shoulder''
             \<and> m3 = ''Vehicle B: Maintain course, prepare to brake''
           \<or> m2 = ''Vehicle B: Steer left onto shoulder''
             \<and> m3 = ''Vehicle A: Maintain course, prepare to brake'')"
    by (simp add: advice_imminent del: threshold_cas_system)
qed

theorem collision_imminent_maneuvers_witness:
  "py_le (PyFloat (Finite (5 / 2))) (PyInt 10)
   \<and> calculate_avoidance_maneuver cas_system
        \<lparr>speed = PyInt 20, position = PyInt 0\<rparr> \<lparr>speed = PyInt 20, position = PyInt 100\<rparr>
        (PyFloat (Finite (5 / 2))) ''status'' = Some (PStr ''collision_imminent'')
   \<and> calculate_avoidance_maneuver cas_system
        \<lparr>speed = PyInt 20, position = PyInt 0\<rparr> \<lparr>speed = PyInt 20, position = PyInt 100\<rparr>
        (PyFloat (Finite (5 / 2))) ''maneuvers'' =
      Some (PList [''Both vehicles reduce speed immediately'',
                   ''Vehicle A: Steer right onto shoulder'',
                   ''Vehicle B: Maintain course, prepare to brake''])"
  using collision_imminent_maneuvers [of "PyFloat (Finite (5 / 2))"
      "\<lparr>speed = PyInt 20, position = PyInt 0\<rparr>" "\<lparr>speed = PyInt 20, position = PyInt 100\<rparr>"]
  by (simp add: advice_imminent py_gt_def py_ge_def)

text \<open>
  C6. In the \<open>collision_imminent\<close> branch, with \<open>speed_a >= speed_b\<close> (a tie included)
  vehicle A is told to steer right onto the shoulder and B to maintain course; in every
  other case, so whenever \<open>speed_b > speed_a\<close>, B is told to steer left onto the shoulder
  and A to maintain course.
\<close>

theorem maneuver_tie_break:
  assumes "\<not> py_gt ttc (PyInt 10)"
  shows "(py_ge (speed car_a) (speed car_b) \<longrightarrow>
            calculate_avoidance_maneuver cas_system car_a car_b ttc ''maneuvers'' =
              Some (PList [''Both vehicles reduce speed immediately'',
                           ''Vehicle A: Steer right onto shoulder'',
                           ''Vehicle B: Maintain course, prepare to brake'']))
       \<and> (\<not> py_ge (speed car_a) (speed car_b) \<longrightarrow>
            calculate_avoidance_maneuver cas_system car_a car_b ttc ''maneuvers'' =
              Some (PList [''Both vehicles reduce speed immediately'',
                           ''Vehicle B: Steer left onto shoulder'',
                           ''Vehicle A: Maintain course, prepare to brake'']))
       \<and> (py_gt (speed car_b) (speed car_a) \<longrightarrow>
            calculate_avoidance_maneuver cas_system car_a car_b ttc ''maneuvers'' =
              Some (PList [''Both vehicles reduce speed immediately'',
                           ''Vehicle B: Steer left onto shoulder'',
                           ''Vehicle A: Maintain course, prepare to brake'']))"
proof -
  have imm: "\<not> py_gt ttc (critical_ttc_threshold cas_system)"
    using assms by simp
  have excl: "py_gt (speed car_b) (speed car_a) \<Longrightarrow> \<not> py_ge (speed car_a) (speed car_b)"
    using py_le_not_lt [of "speed car_b" "speed car_a"] by (auto simp: py_gt_def py_ge_def)
  show ?thesis
    using excl by (auto simp: advice_imminent [OF imm])
qed

theorem maneuver_tie_break_witness:
  "\<not> py_gt (PyFloat (Finite 4)) (PyInt 10)
   \<and> py_gt (PyInt 15) (PyInt 10)
   \<and> calculate_avoidance_maneuver cas_system
        \<lparr>speed = PyInt 10, position = PyInt 0\<rparr> \<lparr>speed = PyInt 15, position = PyInt 100\<rparr>
        (PyFloat (Finite 4)) ''maneuvers'' =
      Some (PList [''Both vehicles reduce speed immediately'',
                   ''Vehicle B: Steer left onto shoulder'',
                   ''Vehicle A: Maintain course, prepare to brake''])
   \<and> py_ge (PyFloat (Finite 20)) (PyInt 20)
   \<and> calculate_avoidance_maneuver cas_system
        \<lparr>speed = PyFloat (Finite 20), position = PyInt 0\<rparr> \<lparr>speed = PyInt 20, position = PyInt 160\<rparr>
        (PyFloat (Finite 4)) ''maneuvers'' =
      Some (PList [''Both vehicles reduce speed immediately'',
                   ''Vehicle A: Steer right onto shoulder'',
                   ''Vehicle B: Maintain course, prepare to brake''])"
  using
    maneuver_tie_break [of "PyFloat (Finite 4)" "\<lparr>speed = PyInt 10, position = PyInt 0\<rparr>"
      "\<lparr>speed = PyInt 15, position = PyInt 100\<rparr>"]
    maneuver_tie_break [of "PyFloat (Finite 4)" "\<lparr>speed = PyFloat (Finite 20), position = PyInt 0\<rparr>"
      "\<lparr>speed = PyInt 20, position = PyInt 160\<rparr>"]
  by (simp add: py_gt_def py_ge_def)

section \<open>The random draws\<close>

lemma py_mul_PyInt_Finite:
  "\<bar>w\<bar> < 2 ^ 53 \<Longrightarrow>
   py_mul (PyInt w) (PyFloat (Finite u)) = Inr (PyFloat (to_double (of_int w * u)))"
  by (simp add: float_of_int_small bind_err_def)

lemma py_add_PyInt_PyFloat:
  "\<bar>a\<bar> < 2 ^ 53 \<Longrightarrow>
   py_add (PyInt a) (PyFloat f) = Inr (PyFloat (float_add (Finite (of_int a)) f))"
  by (simp add: float_of_int_small bind_err_def)

lemma random_uniform_ints:
  assumes "\<bar>a\<bar> < 2 ^ 53" and "\<bar>b - a\<bar> < 2 ^ 53"
  shows "random_uniform (PyInt a) (PyInt b) g =
           Inr (PyFloat (float_add (Finite (of_int a)) (to_double (of_int (b - a) * shd g))),
                stl g)"
  using assms
  by (simp add: random_uniform_def random_random_def float_of_int_small bind_err_def
      del: of_int_diff)

lemma uniform_range:
  assumes "0 \<le> shd g" and "shd g < 1" and "a \<le> b"
    and "\<bar>a\<bar> < 2 ^ 53" and "\<bar>b\<bar> < 2 ^ 53" and "\<bar>b - a\<bar> < 2 ^ 53"
  shows "\<exists>m. random_uniform (PyInt a) (PyInt b) g = Inr (PyFloat (Finite m), stl g)
           \<and> of_int a \<le> m \<and> m \<le> of_int b"
proof -
  let ?w = "of_int (b - a) :: real"
  have w: "0 \<le> ?w" using assms(3) by simp
  have "of_int 0 \<le> ?w * shd g" using w assms(1) by simp
  moreover have "?w * shd g \<le> of_int (b - a)"
    using w assms(2) mult_left_mono [of "shd g" 1 ?w] by simp
  ultimately have off: "to_double (?w * shd g) = Finite (round_to_double (?w * shd g))"
    "of_int 0 \<le> round_to_double (?w * shd g)" "round_to_double (?w * shd g) \<le> of_int (b - a)"
    using to_double_between [of 0 "?w * shd g" "b - a"] assms(6) by simp_all
  let ?r = "round_to_double (?w * shd g)"
  have "of_int a \<le> of_int a + ?r" using off(2) by simp
  moreover have "of_int a + ?r \<le> of_int b" using off(3) by simp
  ultimately have sum: "to_double (of_int a + ?r) = Finite (round_to_double (of_int a + ?r))"
    "of_int a \<le> round_to_double (of_int a + ?r)" "round_to_double (of_int a + ?r) \<le> of_int b"
    using to_double_between [of a "of_int a + ?r" b] assms(4,5) by simp_all
  have "random_uniform (PyInt a) (PyInt b) g =
      Inr (PyFloat (Finite (round_to_double (of_int a + ?r))), stl g)"
    unfolding random_uniform_ints [OF assms(4,6)] off(1) float_add.simps sum(1) ..
  with sum(2,3) show ?thesis by blast
qed

section \<open>The simulated outcome\<close>

lemma simulate_safe:
  "avoidance_data ''status'' = Some (PStr ''safe'') \<Longrightarrow>
   simulate_avoidance self car_a car_b avoidance_data g =
     bind_err (random_uniform (PyInt 50) (PyInt 100) g) (\<lambda>(m, g1).
       Inr (\<lparr>collision_avoided = True, min_distance = m,
              outcome = ''Safe passage''\<rparr>, g1))"
  by (simp add: simulate_avoidance_def bind_err_def dict_get_def)

lemma simulate_imminent:
  "avoidance_data ''status'' = Some st \<Longrightarrow> st \<noteq> PStr ''safe'' \<Longrightarrow>
   avoidance_data ''ttc'' = Some t \<Longrightarrow> success_probability t = Inr p \<Longrightarrow>
   simulate_avoidance self car_a car_b avoidance_data g =
     (if py_lt (PyFloat (Finite (shd g))) p
      then bind_err (random_uniform (PyInt 5) (PyInt 20) (stl g)) (\<lambda>(m, g2).
             Inr (\<lparr>collision_avoided = True, min_distance = m,
                    outcome = ''Close call - collision avoided''\<rparr>, g2))
      else Inr (\<lparr>collision_avoided = False, min_distance = PyInt 0,
                  outcome = ''COLLISION OCCURRED''\<rparr>, stl g))"
  by (simp add: simulate_avoidance_def bind_err_def dict_get_def random_random_def)

text \<open>
  C3. For every advice dictionary and all draws of the generator (each in \<open>[0, 1)\<close>):
  with status \<open>safe\<close>, \<open>simulate_avoidance\<close> reports the collision avoided, a minimal
  distance between 50 and 100 and the outcome "Safe passage"; with another status, a ttc
  entry and the success probability \<open>p\<close> computed from it, a first draw strictly below
  \<open>p\<close> gives avoided, a minimal distance between 5 and 20 and "Close call - collision
  avoided", and any other first draw gives not avoided, distance 0 and "COLLISION
  OCCURRED".
\<close>

theorem simulate_avoidance_outcomes:
  assumes "0 \<le> shd g" and "shd g < 1" and "0 \<le> shd (stl g)" and "shd (stl g) < 1"
  shows "(avoidance_data ''status'' = Some (PStr ''safe'') \<longrightarrow>
            (\<exists>m. simulate_avoidance self car_a car_b avoidance_data g =
                    Inr (\<lparr>collision_avoided = True, min_distance = PyFloat (Finite m),
                           outcome = ''Safe passage''\<rparr>, stl g)
                  \<and> 50 \<le> m \<and> m \<le> 100))
       \<and> (avoidance_data ''status'' = Some st \<and> st \<noteq> PStr ''safe''
            \<and> avoidance_data ''ttc'' = Some t \<and> success_probability t = Inr p \<longrightarrow>
            (if py_lt (PyFloat (Finite (shd g))) p
             then \<exists>m. simulate_avoidance self car_a car_b avoidance_data g =
                    Inr (\<lparr>collision_avoided = True, min_distance = PyFloat (Finite m),
                           outcome = ''Close call - collision avoided''\<rparr>, stl (stl g))
                  \<and> 5 \<le> m \<and> m \<le> 20
             else simulate_avoidance self car_a car_b avoidance_data g =
                    Inr (\<lparr>collision_avoided = False, min_distance = PyInt 0,
                           outcome = ''COLLISION OCCURRED''\<rparr>, stl g)))"
proof (intro conjI impI)
  assume safe: "avoidance_data ''status'' = Some (PStr ''safe'')"
  obtain m where "random_uniform (PyInt 50) (PyInt 100) g = Inr (PyFloat (Finite m), stl g)"
    "50 \<le> m" "m \<le> 100"
    using uniform_range [of g 50 100] assms(1,2) by auto
  then show "\<exists>m. simulate_avoidance self car_a car_b avoidance_data g =
                    Inr (\<lparr>collision_avoided = True, min_distance = PyFloat (Finite m),
                           outcome = ''Safe passage''\<rparr>, stl g)
                  \<and> 50 \<le> m \<and> m \<le> 100"
    using safe by (simp add: simulate_safe bind_err_def)
next
  assume imm: "avoidance_data ''status'' = Some st \<and> st \<noteq> PStr ''safe''
            \<and> avoidance_data ''ttc'' = Some t \<and> success_probability t = Inr p"
  obtain m where m: "random_uniform (PyInt 5) (PyInt 20) (stl g) =
      Inr (PyFloat (Finite m), stl (stl g))" "5 \<le> m" "m \<le> 20"
    using uniform_range [of "stl g" 5 20] assms(3,4) by auto
  have "simulate_avoidance self car_a car_b avoidance_data g =
     (if py_lt (PyFloat (Finite (shd g))) p
      then bind_err (random_uniform (PyInt 5) (PyInt 20) (stl g)) (\<lambda>(m, g2).
             Inr (\<lparr>collision_avoided = True, min_distance = m,
                    outcome = ''Close call - collision avoided''\<rparr>, g2))
      else Inr (\<lparr>collision_avoided = False, min_distance = PyInt 0,
                  outcome = ''COLLISION OCCURRED''\<rparr>, stl g))"
    using imm simulate_imminent [of avoidance_data st t p self car_a car_b g] by blast
  with m show "if py_lt (PyFloat (Finite (shd g))) p
             then \<exists>m. simulate_avoidance self car_a car_b avoidance_data g =
                    Inr (\<lparr>collision_avoided = True, min_distance = PyFloat (Finite m),
                           outcome = ''Close call - collision avoided''\<rparr>, stl (stl g))
                  \<and> 5 \<le> m \<and> m \<le> 20
             else simulate_avoidance self car_a car_b avoidance_data g =
                    Inr (\<lparr>collision_avoided = False, min_distance = PyInt 0,
                           outcome = ''COLLISION OCCURRED''\<rparr>, stl g)"
    by (simp add: bind_err_def)
qed

section \<open>The literals and the success probability\<close>

lemma literal_07: "to_double (7 / 10) = Finite (3152519739159347 / 2 ^ 52)"
  using to_double_eval [of "- 1" "7 / 10"]
  by (simp add: round_half_even_def power_int_minus_divide)

lemma literal_095: "to_double (95 / 100) = Finite (4278419646001971 / 2 ^ 52)"
  using to_double_eval [of "- 1" "95 / 100"]
  by (simp add: round_half_even_def power_int_minus_divide)

lemma literal_36: "to_double (36 / 10) = Finite (8106479329266893 / 2 ^ 51)"
  using to_double_eval [of 1 "36 / 10"]
  by (simp add: round_half_even_def power_int_minus_divide)

lemma to_double_numeral:
  "\<bar>numeral k :: int\<bar> < 2 ^ 53 \<Longrightarrow> to_double (numeral k) = Finite (numeral k)"
  using to_double_of_int [of "numeral k"] by simp

lemma float_of_int_20 [simp]: "float_of_int 20 = Inr (Finite 20)"
  using float_of_int_small [of 20] by simp

lemma success_probability_PyFloat:
  "success_probability (PNum (PyFloat f)) =
     Inr (py_min (float_literal (95 / 100))
            (PyFloat (float_add (to_double (7 / 10))
               (case f of Finite x \<Rightarrow> to_double (x / 20) | PosInf \<Rightarrow> PosInf
                | NegInf \<Rightarrow> NegInf | NaN \<Rightarrow> NaN))))"
  by (cases f) (simp_all add: success_probability_def bind_err_def float_literal_def)

lemma literal_095_reduced: "to_double (19 / 20) = Finite (4278419646001971 / 2 ^ 52)"
  using literal_095 by simp

lemma to_double_5: "to_double 5 = Finite 5"
  using to_double_of_int [of 5] by simp

lemma success_probability_5:
  "success_probability (PNum (PyFloat (Finite 5))) = Inr (PyFloat (Finite (4278419646001971 / 2 ^ 52)))"
proof -
  have q: "to_double (1 / 4) = Finite (1 / 4)"
    using to_double_eval [of "- 2" "1 / 4"]
    by (simp add: round_half_even_def power_int_minus_divide)
  have s: "to_double (3152519739159347 / 2 ^ 52 + 1 / 4) = Finite (4278419646001971 / 2 ^ 52)"
    using to_double_eval [of "- 1" "3152519739159347 / 2 ^ 52 + 1 / 4"]
    by (simp add: round_half_even_def power_int_minus_divide)
  have "float_add (to_double (7 / 10)) (to_double (5 / 20)) = Finite (4278419646001971 / 2 ^ 52)"
    using q s by (simp add: literal_07)
  then show ?thesis
    by (simp add: success_probability_PyFloat float_literal_def literal_095_reduced py_min_def)
qed

lemma py_round_5: "py_round (PyFloat (Finite 5)) 2 = PyFloat (Finite 5)"
  by (simp add: to_double_5)

theorem simulate_avoidance_outcomes_witness:
  "(0::real) \<le> shd (sconst (1 / 2)) \<and> shd (sconst (1 / 2)) < (1::real)
   \<and> (\<exists>m. simulate_avoidance cas_system
             \<lparr>speed = PyInt 30, position = PyInt 0\<rparr> \<lparr>speed = PyInt 10, position = PyInt 500\<rparr>
             (calculate_avoidance_maneuver cas_system
                \<lparr>speed = PyInt 30, position = PyInt 0\<rparr> \<lparr>speed = PyInt 10, position = PyInt 500\<rparr>
                (PyFloat PosInf))
             (sconst (1 / 2)) =
           Inr (\<lparr>collision_avoided = True, min_distance = PyFloat (Finite m),
                  outcome = ''Safe passage''\<rparr>, sconst (1 / 2))
         \<and> 50 \<le> m \<and> m \<le> 100)
   \<and> (\<exists>m. simulate_avoidance cas_system
             \<lparr>speed = PyInt 30, position = PyInt 0\<rparr> \<lparr>speed = PyInt 10, position = PyInt 200\<rparr>
             (calculate_avoidance_maneuver cas_system
                \<lparr>speed = PyInt 30, position = PyInt 0\<rparr> \<lparr>speed = PyInt 10, position = PyInt 200\<rparr>
                (PyFloat (Finite 5)))
             (sconst (1 / 2)) =
           Inr (\<lparr>collision_avoided = True, min_distance = PyFloat (Finite m),
                  outcome = ''Close call - collision avoided''\<rparr>, sconst (1 / 2))
         \<and> 5 \<le> m \<and> m \<le> 20)
   \<and> simulate_avoidance cas_system
         \<lparr>speed = PyInt 30, position = PyInt 0\<rparr> \<lparr>speed = PyInt 10, position = PyInt 200\<rparr>
         (calculate_avoidance_maneuver cas_system
            \<lparr>speed = PyInt 30, position = PyInt 0\<rparr> \<lparr>speed = PyInt 10, position = PyInt 200\<rparr>
            (PyFloat (Finite 5)))
         (SCons (31 / 32) (sconst (1 / 2))) =
       Inr (\<lparr>collision_avoided = False, min_distance = PyInt 0,
              outcome = ''COLLISION OCCURRED''\<rparr>, sconst (1 / 2))"
  using
    simulate_avoidance_outcomes [of "sconst (1 / 2)"
      "calculate_avoidance_maneuver cas_system
         \<lparr>speed = PyInt 30, position = PyInt 0\<rparr> \<lparr>speed = PyInt 10, position = PyInt 500\<rparr> (PyFloat PosInf)"
      cas_system "\<lparr>speed = PyInt 30, position = PyInt 0\<rparr>"
      "\<lparr>speed = PyInt 10, position = PyInt 500\<rparr>" "PStr ''safe''" "PNum (PyFloat NaN)" "PyFloat NaN"]
    simulate_avoidance_outcomes [of "sconst (1 / 2)"
      "calculate_avoidance_maneuver cas_system
         \<lparr>speed = PyInt 30, position = PyInt 0\<rparr> \<lparr>speed = PyInt 10, position = PyInt 200\<rparr> (PyFloat (Finite 5))"
      cas_system "\<lparr>speed = PyInt 30, position = PyInt 0\<rparr>"
      "\<lparr>speed = PyInt 10, position = PyInt 200\<rparr>" "PStr ''collision_imminent''"
      "PNum (PyFloat (Finite 5))" "PyFloat (Finite (4278419646001971 / 2 ^ 52))"]
    simulate_avoidance_outcomes [of "SCons (31 / 32) (sconst (1 / 2))"
      "calculate_avoidance_maneuver cas_system
         \<lparr>speed = PyInt 30, position = PyInt 0\<rparr> \<lparr>speed = PyInt 10, position = PyInt 200\<rparr> (PyFloat (Finite 5))"
      cas_system "\<lparr>speed = PyInt 30, position = PyInt 0\<rparr>"
      "\<lparr>speed = PyInt 10, position = PyInt 200\<rparr>" "PStr ''collision_imminent''"
      "PNum (PyFloat (Finite 5))" "PyFloat (Finite (4278419646001971 / 2 ^ 52))"]
  by (simp add: advice_safe advice_imminent success_probability_5 to_double_5 py_gt_def
      py_ge_def py_lt_def)

section \<open>The sign of the time to collision\<close>








lemma calculate_ttc_cases:
  "py_add speed_a speed_b = Inr s \<Longrightarrow>
   calculate_ttc self distance speed_a speed_b =
     (if py_le s (PyInt 0) then Inr (PyFloat PosInf) else py_truediv distance s)"
  by (simp add: calculate_ttc_def bind_err_def)







section \<open>Time to collision\<close>

lemma to_double_overflow:
  assumes "2 powi 1024 \<le> x"
  shows "to_double x = PosInf"
proof -
  have "round_to_double (2 powi 1024) \<le> round_to_double x"
    using assms by (rule round_to_double_mono)
  then have "2 powi 1024 \<le> round_to_double x"
    using pow2_fixed [of 1024] by simp
  then have "2 ^ 1024 \<le> round_to_double x" by (simp only: power_int_numeral)
  then show ?thesis by (simp add: to_double_def Let_def del: power_numeral)
qed

lemma float_of_int_error: "float_of_int n = Inl e \<Longrightarrow> e = OverflowError"
  by (auto simp: float_of_int_def split: pyfloat.splits)

lemma to_float_error: "to_float x = Inl e \<Longrightarrow> e = OverflowError"
  by (cases x) (auto dest: float_of_int_error)


lemma py_truediv_float: "py_truediv d s = Inr t \<Longrightarrow> \<exists>f. t = PyFloat f"
  by (cases d; cases s) (auto simp: bind_err_def split: sum.splits pyfloat.splits if_splits)


lemma calculate_ttc_float: "calculate_ttc self distance speed_a speed_b = Inr t \<Longrightarrow> \<exists>f. t = PyFloat f"
proof -
  assume r: "calculate_ttc self distance speed_a speed_b = Inr t"
  then obtain s where s: "py_add speed_a speed_b = Inr s"
    by (cases "py_add speed_a speed_b") (simp_all add: calculate_ttc_def bind_err_def)
  show ?thesis
  proof (cases "py_le s (PyInt 0)")
    case True
    with r s show ?thesis by (auto simp: calculate_ttc_cases)
  next
    case False
    with r s have "py_truediv distance s = Inr t" by (simp add: calculate_ttc_cases)
    then show ?thesis by (rule py_truediv_float)
  qed
qed


lemma to_double_huge: "to_double (10 ^ 310 / 2) = PosInf"
proof -
  have "(2::real) powi 1024 \<le> 10 ^ 310 / 2" by simp
  then show ?thesis by (rule to_double_overflow)
qed

lemma calculate_ttc_huge:
  "calculate_ttc self (PyInt (10 ^ 310)) (PyInt 1) (PyInt 1) = Inl OverflowError"
proof -
  have "py_truediv (PyInt (10 ^ 310)) (PyInt 2) = Inl OverflowError"
    using to_double_huge by simp
  then show ?thesis by (simp add: calculate_ttc_def bind_err_def del: py_truediv.simps)
qed




section \<open>The success probability\<close>

lemma to_double_mono:
  assumes "x \<le> y"
  shows "py_le (PyFloat (to_double x)) (PyFloat (to_double y))"
proof -
  have "round_to_double x \<le> round_to_double y" using assms by (rule round_to_double_mono)
  then show ?thesis
    by (auto simp: to_double_def Let_def py_le_def py_lt_def py_eq_def simp del: power_numeral)
qed

lemma to_double_not_NaN [simp]: "to_double x \<noteq> NaN"
  by (simp add: to_double_def Let_def del: power_numeral)

lemma float_add_mono:
  assumes "py_le (PyFloat f1) (PyFloat f2)"
  shows "py_le (PyFloat (float_add (Finite c) f1)) (PyFloat (float_add (Finite c) f2))"
proof (cases f1)
  case f1: (Finite a)
  show ?thesis
  proof (cases f2)
    case (Finite b)
    with f1 assms have "c + a \<le> c + b" by simp
    then show ?thesis using f1 Finite by (simp add: to_double_mono)
  next
    case PosInf
    then show ?thesis using f1
      by (cases "to_double (c + a)") (simp_all add: py_le_def py_lt_def py_eq_def)
  qed (use assms f1 in \<open>simp_all add: py_le_def py_lt_def py_eq_def\<close>)
next
  case PosInf
  with assms show ?thesis by (cases f2) (simp_all add: py_le_def py_lt_def py_eq_def)
next
  case NegInf
  with assms show ?thesis
  proof (cases f2)
    case (Finite b)
    then show ?thesis using NegInf
      by (cases "to_double (c + b)") (simp_all add: py_le_def py_lt_def py_eq_def)
  qed (simp_all add: py_le_def py_lt_def py_eq_def)
next
  case NaN
  with assms show ?thesis by (simp add: py_le_def py_lt_def py_eq_def)
qed

lemma py_min_mono:
  assumes "py_le a b"
  shows "py_le (py_min (PyFloat (Finite c)) a) (py_min (PyFloat (Finite c)) b)"
  using assms
  by (cases "exact_value a"; cases "exact_value b")
    (auto simp: py_min_def py_le_def py_lt_def py_eq_def)

lemma py_min_cap: "py_le (py_min (PyFloat (Finite c)) a) (PyFloat (Finite c))"
  by (cases "exact_value a") (auto simp: py_min_def py_le_def py_lt_def py_eq_def)

lemma py_truediv_20:
  assumes "py_truediv t (PyInt 20) = Inr q"
  shows "q = PyFloat (case exact_value t of Finite r \<Rightarrow> to_double (r / 20)
            | PosInf \<Rightarrow> PosInf | NegInf \<Rightarrow> NegInf | NaN \<Rightarrow> NaN)"
proof (cases t)
  case (PyInt n)
  with assms show ?thesis by (auto split: pyfloat.splits)
next
  case (PyFloat f)
  with assms show ?thesis by (cases f) (auto simp: bind_err_def)
qed

lemma div_20_mono:
  assumes "py_le t1 t2"
  shows "py_le
    (PyFloat (case exact_value t1 of Finite r \<Rightarrow> to_double (r / 20)
            | PosInf \<Rightarrow> PosInf | NegInf \<Rightarrow> NegInf | NaN \<Rightarrow> NaN))
    (PyFloat (case exact_value t2 of Finite r \<Rightarrow> to_double (r / 20)
            | PosInf \<Rightarrow> PosInf | NegInf \<Rightarrow> NegInf | NaN \<Rightarrow> NaN))"
proof (cases "exact_value t1")
  case a: (Finite a)
  show ?thesis
  proof (cases "exact_value t2")
    case (Finite b)
    with a assms have "a / 20 \<le> b / 20" by (auto simp: py_le_def py_lt_def py_eq_def)
    then show ?thesis using a Finite by (simp add: to_double_mono)
  next
    case PosInf
    then show ?thesis using a
      by (cases "to_double (a / 20)") (simp_all add: py_le_def py_lt_def py_eq_def)
  qed (use assms a in \<open>simp_all add: py_le_def py_lt_def py_eq_def\<close>)
next
  case PosInf
  with assms show ?thesis
    by (cases "exact_value t2") (simp_all add: py_le_def py_lt_def py_eq_def)
next
  case NegInf
  show ?thesis
  proof (cases "exact_value t2")
    case (Finite b)
    then show ?thesis using NegInf
      by (cases "to_double (b / 20)") (simp_all add: py_le_def py_lt_def py_eq_def)
  qed (use assms NegInf in \<open>simp_all add: py_le_def py_lt_def py_eq_def\<close>)
next
  case NaN
  with assms show ?thesis by (simp add: py_le_def py_lt_def py_eq_def)
qed

lemma float_literal_07: "float_literal (7 / 10) = PyFloat (Finite (3152519739159347 / 2 ^ 52))"
  by (simp add: float_literal_def literal_07)

lemma float_literal_095: "float_literal (95 / 100) = PyFloat (Finite (4278419646001971 / 2 ^ 52))"
  using literal_095 by (simp add: float_literal_def)

lemma success_probability_value:
  assumes "success_probability (PNum t) = Inr p"
  shows "p = py_min (PyFloat (Finite (4278419646001971 / 2 ^ 52)))
           (PyFloat (float_add (Finite (3152519739159347 / 2 ^ 52))
              (case exact_value t of Finite r \<Rightarrow> to_double (r / 20)
               | PosInf \<Rightarrow> PosInf | NegInf \<Rightarrow> NegInf | NaN \<Rightarrow> NaN)))"
proof -
  from assms obtain q where q: "py_truediv t (PyInt 20) = Inr q"
    by (cases "py_truediv t (PyInt 20)") (simp_all add: success_probability_def bind_err_def)
  note v = py_truediv_20 [OF q]
  have "py_add (float_literal (7 / 10)) q =
      Inr (PyFloat (float_add (Finite (3152519739159347 / 2 ^ 52))
        (case exact_value t of Finite r \<Rightarrow> to_double (r / 20)
               | PosInf \<Rightarrow> PosInf | NegInf \<Rightarrow> NegInf | NaN \<Rightarrow> NaN)))"
    unfolding float_literal_07 by (subst v) (simp add: bind_err_def)
  with assms q show ?thesis
    unfolding success_probability_def float_literal_095 by (simp add: bind_err_def)
qed

lemma success_probability_mono:
  assumes "py_le t1 t2" and "success_probability (PNum t1) = Inr p1"
    and "success_probability (PNum t2) = Inr p2"
  shows "py_le p1 p2"
  unfolding success_probability_value [OF assms(2)] success_probability_value [OF assms(3)]
  by (intro py_min_mono float_add_mono div_20_mono assms(1))

lemma success_probability_cap:
  assumes "success_probability v = Inr p"
  shows "py_le p (float_literal (95 / 100))"
proof -
  from assms obtain s where "p = py_min (float_literal (95 / 100)) s"
    by (auto simp: success_probability_def bind_err_def split: sum.splits)
  then show ?thesis unfolding float_literal_095 by (simp add: py_min_cap)
qed

lemma success_probability_10:
  "success_probability (PNum (PyFloat (Finite 10))) = Inr (float_literal (95 / 100))"
proof -
  have q: "to_double (1 / 2) = Finite (1 / 2)"
    using to_double_eval [of "- 1" "1 / 2"]
    by (simp add: round_half_even_def power_int_minus_divide)
  have s: "to_double (3152519739159347 / 2 ^ 52 + 1 / 2) = Finite (5404319552844595 / 2 ^ 52)"
    using to_double_eval [of 0 "3152519739159347 / 2 ^ 52 + 1 / 2"]
    by (simp add: round_half_even_def power_int_minus_divide)
  have "float_add (to_double (7 / 10)) (to_double (10 / 20)) = Finite (5404319552844595 / 2 ^ 52)"
    using q s by (simp add: literal_07)
  then show ?thesis
    by (simp add: success_probability_PyFloat float_literal_def literal_095_reduced py_min_def)
qed

lemma success_probability_4:
  "success_probability (PNum (PyFloat (Finite 4))) =
     Inr (PyFloat (Finite (2026619832316723 / 2 ^ 51)))"
proof -
  have q: "to_double (1 / 5) = Finite (3602879701896397 / 2 ^ 54)"
    using to_double_eval [of "- 3" "1 / 5"]
    by (simp add: round_half_even_def power_int_minus_divide)
  have s: "to_double (3152519739159347 / 2 ^ 52 + 3602879701896397 / 2 ^ 54) =
      Finite (2026619832316723 / 2 ^ 51)"
    using to_double_eval [of "- 1" "3152519739159347 / 2 ^ 52 + 3602879701896397 / 2 ^ 54"]
    by (simp add: round_half_even_def power_int_minus_divide)
  have "float_add (to_double (7 / 10)) (to_double (4 / 20)) = Finite (2026619832316723 / 2 ^ 51)"
    using q s by (simp add: literal_07)
  then show ?thesis
    by (simp add: success_probability_PyFloat float_literal_def literal_095_reduced py_min_def)
qed

lemma random_uniform_5_20:
  "random_uniform (PyInt 5) (PyInt 20) g =
     Inr (PyFloat (float_add (Finite 5) (to_double (15 * shd g))), stl g)"
  using random_uniform_ints [of 5 20 g] by simp

lemma simulate_imminent_avoided:
  assumes "avoidance_data ''status'' = Some st" and "st \<noteq> PStr ''safe''"
    and "avoidance_data ''ttc'' = Some v" and "success_probability v = Inr p"
  shows "\<exists>r g'. simulate_avoidance self car_a car_b avoidance_data g = Inr (r, g')
           \<and> collision_avoided r = py_lt (PyFloat (Finite (shd g))) p"
  using simulate_imminent [OF assms, of self car_a car_b g]
  by (simp add: random_uniform_5_20 bind_err_def)

text \<open>
  C4. In the branch for a status other than \<open>safe\<close>, the success probability is
  \<open>min(0.95, 0.7 + ttc / 20)\<close> of the advice's ttc, in float arithmetic; the collision is
  avoided exactly when the draw is strictly below it; and the probability does not
  decrease when ttc grows, never exceeds 0.95 and is 0.95 at ttc 10.
\<close>

theorem success_probability_spec:
  "success_probability (PNum (PyFloat (Finite x))) =
     Inr (py_min (float_literal (95 / 100))
            (PyFloat (float_add (to_double (7 / 10)) (to_double (x / 20)))))
   \<and> (avoidance_data ''status'' = Some st \<and> st \<noteq> PStr ''safe''
        \<and> avoidance_data ''ttc'' = Some v \<and> success_probability v = Inr p \<longrightarrow>
        (\<exists>r g'. simulate_avoidance self car_a car_b avoidance_data g = Inr (r, g')
           \<and> collision_avoided r = py_lt (PyFloat (Finite (shd g))) p))
   \<and> (py_le t1 t2 \<and> success_probability (PNum t1) = Inr p1
        \<and> success_probability (PNum t2) = Inr p2 \<longrightarrow> py_le p1 p2)
   \<and> (\<exists>q. success_probability (PNum (PyFloat f)) = Inr q)
   \<and> (success_probability v' = Inr p' \<longrightarrow> py_le p' (float_literal (95 / 100)))
   \<and> success_probability (PNum (PyFloat (Finite 10))) = Inr (float_literal (95 / 100))"
proof (intro conjI impI)
  show "success_probability (PNum (PyFloat (Finite x))) =
     Inr (py_min (float_literal (95 / 100))
            (PyFloat (float_add (to_double (7 / 10)) (to_double (x / 20)))))"
    by (simp add: success_probability_PyFloat)
next
  assume "avoidance_data ''status'' = Some st \<and> st \<noteq> PStr ''safe''
        \<and> avoidance_data ''ttc'' = Some v \<and> success_probability v = Inr p"
  then show "\<exists>r g'. simulate_avoidance self car_a car_b avoidance_data g = Inr (r, g')
           \<and> collision_avoided r = py_lt (PyFloat (Finite (shd g))) p"
    using simulate_imminent_avoided [of avoidance_data st v p self car_a car_b g] by blast
next
  assume "py_le t1 t2 \<and> success_probability (PNum t1) = Inr p1
        \<and> success_probability (PNum t2) = Inr p2"
  then show "py_le p1 p2" using success_probability_mono by blast
next
  show "\<exists>q. success_probability (PNum (PyFloat f)) = Inr q"
    by (simp add: success_probability_PyFloat)
next
  assume "success_probability v' = Inr p'"
  then show "py_le p' (float_literal (95 / 100))" by (rule success_probability_cap)
next
  show "success_probability (PNum (PyFloat (Finite 10))) = Inr (float_literal (95 / 100))"
    by (rule success_probability_10)
qed

theorem success_probability_spec_witness:
  "success_probability (PNum (PyFloat (Finite 4))) =
     Inr (PyFloat (Finite (2026619832316723 / 2 ^ 51)))
   \<and> (\<exists>r g'. simulate_avoidance cas_system
          \<lparr>speed = PyInt 20, position = PyInt 0\<rparr> \<lparr>speed = PyInt 20, position = PyInt 160\<rparr>
          [''status'' \<mapsto> PStr ''collision_imminent'', ''ttc'' \<mapsto> PNum (PyFloat (Finite 4))]
          (SCons (2026619832316723 / 2 ^ 51) (sconst 0)) = Inr (r, g')
        \<and> \<not> collision_avoided r)
   \<and> py_le (PyFloat (Finite 4)) (PyFloat (Finite 10))
   \<and> py_le (PyFloat (Finite (2026619832316723 / 2 ^ 51))) (float_literal (95 / 100))"
proof -
  let ?d = "[''status'' \<mapsto> PStr ''collision_imminent'', ''ttc'' \<mapsto> PNum (PyFloat (Finite 4))]"
  let ?p = "PyFloat (Finite (2026619832316723 / 2 ^ 51))"
  let ?g = "SCons (2026619832316723 / 2 ^ 51) (sconst 0)"
  note spec = success_probability_spec [where x = 4 and avoidance_data = ?d
      and st = "PStr ''collision_imminent''" and v = "PNum (PyFloat (Finite 4))"
      and p = ?p and self = cas_system
      and car_a = "\<lparr>speed = PyInt 20, position = PyInt 0\<rparr>"
      and car_b = "\<lparr>speed = PyInt 20, position = PyInt 160\<rparr>"
      and g = ?g and ?t1.0 = "PyFloat (Finite 4)" and ?t2.0 = "PyFloat (Finite 10)"
      and ?p1.0 = ?p and ?p2.0 = "float_literal (95 / 100)" and f = "Finite 4"
      and v' = "PNum (PyFloat (Finite 4))" and p' = ?p]
  have p4: "success_probability (PNum (PyFloat (Finite 4))) = Inr ?p"
    by (rule success_probability_4)
  have keys: "?d ''status'' = Some (PStr ''collision_imminent'')"
    "PStr ''collision_imminent'' \<noteq> PStr ''safe''"
    "?d ''ttc'' = Some (PNum (PyFloat (Finite 4)))"
    by simp_all
  from spec keys p4 obtain r g' where run:
    "simulate_avoidance cas_system \<lparr>speed = PyInt 20, position = PyInt 0\<rparr>
       \<lparr>speed = PyInt 20, position = PyInt 160\<rparr> ?d ?g = Inr (r, g')"
    "collision_avoided r = py_lt (PyFloat (Finite (shd ?g))) ?p"
    by blast
  from run(2) have "\<not> collision_avoided r" by simp
  with run(1) have sim: "\<exists>r g'. simulate_avoidance cas_system
      \<lparr>speed = PyInt 20, position = PyInt 0\<rparr> \<lparr>speed = PyInt 20, position = PyInt 160\<rparr>
      ?d ?g = Inr (r, g') \<and> \<not> collision_avoided r"
    by blast
  have le: "py_le (PyFloat (Finite 4)) (PyFloat (Finite 10))" by simp
  from spec p4 have cap: "py_le ?p (float_literal (95 / 100))" by blast
  from p4 sim le cap show ?thesis by blast
qed

section \<open>The random scenario\<close>

lemma literal_36_reduced: "to_double (18 / 5) = Finite (8106479329266893 / 2 ^ 51)"
  using literal_36 by simp

lemma float_literal_36: "float_literal (36 / 10) = PyFloat (Finite (8106479329266893 / 2 ^ 51))"
  using literal_36 by (simp add: float_literal_def)

lemma py_truediv_36:
  "py_truediv (PyFloat (Finite x)) (float_literal (36 / 10)) =
     Inr (PyFloat (to_double (x / (8106479329266893 / 2 ^ 51))))"
  unfolding float_literal_36 by (simp add: bind_err_def)

lemma py_round_1_bounds:
  assumes "60 \<le> x" and "x \<le> 120"
  shows "\<exists>k::int. py_round (PyFloat (Finite x)) 1 =
           PyFloat (Finite (round_to_double (of_int k / 10)))
         \<and> k = round_half_even (x * 10) \<and> 600 \<le> k \<and> k \<le> 1200
         \<and> 60 \<le> round_to_double (of_int k / 10) \<and> round_to_double (of_int k / 10) \<le> 120"
proof -
  let ?k = "round_half_even (x * 10)"
  have k: "600 \<le> ?k \<and> ?k \<le> 1200"
    using assms by (intro round_half_even_bounds) simp_all
  then have "of_int 60 \<le> (of_int ?k / 10 :: real)" "(of_int ?k / 10 :: real) \<le> of_int 120"
    by simp_all
  then have "to_double (of_int ?k / 10) = Finite (round_to_double (of_int ?k / 10))
       \<and> of_int 60 \<le> round_to_double (of_int ?k / 10)
       \<and> round_to_double (of_int ?k / 10) \<le> of_int 120"
    by (intro to_double_between) simp_all
  with k show ?thesis by simp
qed

lemma generate_random_scenario_eq:
  assumes "random_uniform (PyInt 60) (PyInt 120) g = Inr (PyFloat (Finite sa), g1)"
    and "random_uniform (PyInt 60) (PyInt 120) g1 = Inr (PyFloat (Finite sb), g2)"
  shows "generate_random_scenario g =
     Inr (\<lparr>scen_speed_a = py_round (PyFloat (Finite sa)) 1,
            scen_speed_b = py_round (PyFloat (Finite sb)) 1,
            scen_speed_a_ms =
              py_round (PyFloat (to_double (sa / (8106479329266893 / 2 ^ 51)))) 1,
            scen_speed_b_ms =
              py_round (PyFloat (to_double (sb / (8106479329266893 / 2 ^ 51)))) 1\<rparr>, g2)"
  unfolding generate_random_scenario_def assms bind_err_def sum.case prod.case py_truediv_36
  by (rule refl)

text \<open>
  C8, as amended. For every scenario of \<open>generate_random_scenario\<close> (the two draws in
  \<open>[0, 1)\<close>): the returned \<open>speed_a\<close> and \<open>speed_b\<close> are the drawn speeds rounded to one
  decimal place and lie between 60 and 120, and \<open>speed_a_ms\<close> and \<open>speed_b_ms\<close> are the
  drawn speeds, not the returned ones, divided by 3.6 and rounded to one decimal place.
\<close>

theorem generate_random_scenario_spec:
  assumes "0 \<le> shd g" and "shd g < 1" and "0 \<le> shd (stl g)" and "shd (stl g) < 1"
  shows "\<exists>sa sb qa qb. \<exists>ka kb :: int.
           random_uniform (PyInt 60) (PyInt 120) g = Inr (PyFloat (Finite sa), stl g)
           \<and> random_uniform (PyInt 60) (PyInt 120) (stl g) =
               Inr (PyFloat (Finite sb), stl (stl g))
           \<and> 60 \<le> sa \<and> sa \<le> 120 \<and> 60 \<le> sb \<and> sb \<le> 120
           \<and> py_truediv (PyFloat (Finite sa)) (float_literal (36 / 10)) = Inr qa
           \<and> py_truediv (PyFloat (Finite sb)) (float_literal (36 / 10)) = Inr qb
           \<and> generate_random_scenario g =
               Inr (\<lparr>scen_speed_a = py_round (PyFloat (Finite sa)) 1,
                      scen_speed_b = py_round (PyFloat (Finite sb)) 1,
                      scen_speed_a_ms = py_round qa 1,
                      scen_speed_b_ms = py_round qb 1\<rparr>, stl (stl g))
           \<and> py_round (PyFloat (Finite sa)) 1 = PyFloat (Finite (round_to_double (of_int ka / 10)))
           \<and> py_round (PyFloat (Finite sb)) 1 = PyFloat (Finite (round_to_double (of_int kb / 10)))
           \<and> 60 \<le> round_to_double (of_int ka / 10) \<and> round_to_double (of_int ka / 10) \<le> 120
           \<and> 60 \<le> round_to_double (of_int kb / 10) \<and> round_to_double (of_int kb / 10) \<le> 120"
proof -
  obtain sa where sa: "random_uniform (PyInt 60) (PyInt 120) g = Inr (PyFloat (Finite sa), stl g)"
    "60 \<le> sa" "sa \<le> 120"
    using uniform_range [of g 60 120] assms(1,2) by auto
  obtain sb where sb: "random_uniform (PyInt 60) (PyInt 120) (stl g) =
      Inr (PyFloat (Finite sb), stl (stl g))" "60 \<le> sb" "sb \<le> 120"
    using uniform_range [of "stl g" 60 120] assms(3,4) by auto
  obtain ka :: int where ka: "py_round (PyFloat (Finite sa)) 1 =
      PyFloat (Finite (round_to_double (of_int ka / 10)))"
    "60 \<le> round_to_double (of_int ka / 10)" "round_to_double (of_int ka / 10) \<le> 120"
    using py_round_1_bounds [OF sa(2,3)] by blast
  obtain kb :: int where kb: "py_round (PyFloat (Finite sb)) 1 =
      PyFloat (Finite (round_to_double (of_int kb / 10)))"
    "60 \<le> round_to_double (of_int kb / 10)" "round_to_double (of_int kb / 10) \<le> 120"
    using py_round_1_bounds [OF sb(2,3)] by blast
  note eq = generate_random_scenario_eq [OF sa(1) sb(1)]
  show ?thesis
    using sa sb ka kb eq py_truediv_36 [of sa] py_truediv_36 [of sb] by blast
qed

lemma scenario_draw_a:
  "random_uniform (PyInt 60) (PyInt 120) (SCons (7 / 16) (sconst 0)) =
     Inr (PyFloat (Finite (345 / 4)), sconst 0)"
proof -
  have e1: "to_double (105 / 4) = Finite (105 / 4)"
    using to_double_eval [of 4 "105 / 4"]
    by (simp add: round_half_even_def power_int_minus_divide)
  have e2: "to_double (345 / 4) = Finite (345 / 4)"
    using to_double_eval [of 6 "345 / 4"]
    by (simp add: round_half_even_def power_int_minus_divide)
  show ?thesis
    using random_uniform_ints [of 60 120 "SCons (7 / 16) (sconst 0)"] by (simp add: e1 e2)
qed

lemma to_double_60: "to_double 60 = Finite 60"
  using to_double_of_int [of 60] by simp

lemma to_double_24: "to_double 24 = Finite 24"
  using to_double_of_int [of 24] by simp

lemma scenario_draw_b:
  "random_uniform (PyInt 60) (PyInt 120) (sconst 0) = Inr (PyFloat (Finite 60), sconst 0)"
  using random_uniform_ints [of 60 120 "sconst 0"] by (simp add: to_double_60)

lemma scenario_speed_a: "py_round (PyFloat (Finite (345 / 4))) 1 =
    PyFloat (Finite (6065785748114637 / 2 ^ 46))"
proof -
  have "to_double (431 / 5) = Finite (6065785748114637 / 2 ^ 46)"
    using to_double_eval [of 6 "431 / 5"]
    by (simp add: round_half_even_def power_int_minus_divide)
  then show ?thesis by (simp add: round_half_even_def)
qed

lemma scenario_speed_a_ms:
  "py_round (PyFloat (to_double (345 / 4 / (8106479329266893 / 2 ^ 51)))) 1 = PyFloat (Finite 24)"
proof -
  have "to_double (194217733930352640 / 8106479329266893) =
      Finite (6743671317026133 / 281474976710656)"
    using to_double_eval [of 4 "194217733930352640 / 8106479329266893"]
    by (simp add: round_half_even_def power_int_minus_divide)
  then show ?thesis by (simp add: round_half_even_def to_double_24)
qed

lemma scenario_speed_b_ms:
  "py_round (PyFloat (to_double (60 / (8106479329266893 / 2 ^ 51)))) 1 =
     PyFloat (Finite (4700632111067955 / 2 ^ 48))"
proof -
  have "to_double (135107988821114880 / 8106479329266893) =
      Finite (4691249611844267 / 281474976710656)"
    using to_double_eval [of 4 "135107988821114880 / 8106479329266893"]
    by (simp add: round_half_even_def power_int_minus_divide)
  moreover have "to_double (167 / 10) = Finite (4700632111067955 / 281474976710656)"
    using to_double_eval [of 4 "167 / 10"]
    by (simp add: round_half_even_def power_int_minus_divide)
  ultimately show ?thesis by (simp add: round_half_even_def)
qed

lemma returned_speed_a_ms:
  "py_truediv (PyFloat (Finite (6065785748114637 / 2 ^ 46))) (float_literal (36 / 10)) =
     Inr (PyFloat (Finite (6739761942349597 / 2 ^ 48)))"
proof -
  have "to_double (194105143939668384 / 8106479329266893) =
      Finite (6739761942349597 / 281474976710656)"
    using to_double_eval [of 4 "194105143939668384 / 8106479329266893"]
    by (simp add: round_half_even_def power_int_minus_divide)
  then show ?thesis unfolding py_truediv_36 by simp
qed

lemma returned_speed_a_ms_rounded:
  "py_round (PyFloat (Finite (6739761942349597 / 2 ^ 48))) 1 =
     PyFloat (Finite (3363625971692339 / 2 ^ 47))"
proof -
  have "to_double (239 / 10) = Finite (3363625971692339 / 140737488355328)"
    using to_double_eval [of 4 "239 / 10"]
    by (simp add: round_half_even_def power_int_minus_divide)
  then show ?thesis by (simp add: round_half_even_def)
qed

theorem generate_random_scenario_counterexample:
  "generate_random_scenario (SCons (7 / 16) (sconst 0)) =
     Inr (\<lparr>scen_speed_a = PyFloat (Finite (6065785748114637 / 2 ^ 46)),
            scen_speed_b = PyFloat (Finite 60),
            scen_speed_a_ms = PyFloat (Finite 24),
            scen_speed_b_ms = PyFloat (Finite (4700632111067955 / 2 ^ 48))\<rparr>, sconst 0)
   \<and> py_truediv (PyFloat (Finite (6065785748114637 / 2 ^ 46))) (float_literal (36 / 10)) =
       Inr (PyFloat (Finite (6739761942349597 / 2 ^ 48)))
   \<and> py_round (PyFloat (Finite (6739761942349597 / 2 ^ 48))) 1 =
       PyFloat (Finite (3363625971692339 / 2 ^ 47))
   \<and> PyFloat (Finite 24) \<noteq> PyFloat (Finite (3363625971692339 / 2 ^ 47))"
proof -
  have b: "py_round (PyFloat (Finite 60)) 1 = PyFloat (Finite 60)"
    by (simp add: to_double_60)
  have "generate_random_scenario (SCons (7 / 16) (sconst 0)) =
     Inr (\<lparr>scen_speed_a = PyFloat (Finite (6065785748114637 / 2 ^ 46)),
            scen_speed_b = PyFloat (Finite 60),
            scen_speed_a_ms = PyFloat (Finite 24),
            scen_speed_b_ms = PyFloat (Finite (4700632111067955 / 2 ^ 48))\<rparr>, sconst 0)"
    unfolding generate_random_scenario_eq [OF scenario_draw_a scenario_draw_b]
      scenario_speed_a scenario_speed_a_ms scenario_speed_b_ms b ..
  moreover have "PyFloat (Finite 24) \<noteq> PyFloat (Finite (3363625971692339 / 2 ^ 47))"
    by simp
  ultimately show ?thesis
    using returned_speed_a_ms returned_speed_a_ms_rounded by blast
qed

theorem generate_random_scenario_spec_witness:
  "(0::real) \<le> shd (SCons (7 / 16) (sconst 0)) \<and> shd (SCons (7 / 16) (sconst 0)) < (1::real)
   \<and> (0::real) \<le> shd (stl (SCons (7 / 16) (sconst 0)))
   \<and> shd (stl (SCons (7 / 16) (sconst 0))) < (1::real)
   \<and> (\<exists>sa sb qa qb. \<exists>ka kb :: int.
        random_uniform (PyInt 60) (PyInt 120) (SCons (7 / 16) (sconst 0)) =
          Inr (PyFloat (Finite sa), stl (SCons (7 / 16) (sconst 0)))
        \<and> random_uniform (PyInt 60) (PyInt 120) (stl (SCons (7 / 16) (sconst 0))) =
            Inr (PyFloat (Finite sb), stl (stl (SCons (7 / 16) (sconst 0))))
        \<and> 60 \<le> sa \<and> sa \<le> 120 \<and> 60 \<le> sb \<and> sb \<le> 120
        \<and> py_truediv (PyFloat (Finite sa)) (float_literal (36 / 10)) = Inr qa
        \<and> py_truediv (PyFloat (Finite sb)) (float_literal (36 / 10)) = Inr qb
        \<and> generate_random_scenario (SCons (7 / 16) (sconst 0)) =
            Inr (\<lparr>scen_speed_a = py_round (PyFloat (Finite sa)) 1,
                   scen_speed_b = py_round (PyFloat (Finite sb)) 1,
                   scen_speed_a_ms = py_round qa 1,
                   scen_speed_b_ms = py_round qb 1\<rparr>, stl (stl (SCons (7 / 16) (sconst 0))))
        \<and> py_round (PyFloat (Finite sa)) 1 = PyFloat (Finite (round_to_double (of_int ka / 10)))
        \<and> py_round (PyFloat (Finite sb)) 1 = PyFloat (Finite (round_to_double (of_int kb / 10)))
        \<and> 60 \<le> round_to_double (of_int ka / 10) \<and> round_to_double (of_int ka / 10) \<le> 120
        \<and> 60 \<le> round_to_double (of_int kb / 10) \<and> round_to_double (of_int kb / 10) \<le> 120)"
proof -
  have draws: "(0::real) \<le> shd (SCons (7 / 16) (sconst 0))"
    "shd (SCons (7 / 16) (sconst 0)) < (1::real)"
    "(0::real) \<le> shd (stl (SCons (7 / 16) (sconst 0)))"
    "shd (stl (SCons (7 / 16) (sconst 0))) < (1::real)"
    by simp_all
  show ?thesis
    by (intro conjI draws generate_random_scenario_spec [OF draws])
qed

section \<open>The composition in the handler\<close>

lemma py_round_float: "\<exists>f'. py_round (PyFloat f) n = PyFloat f'"
  by (cases f) simp_all

lemma success_probability_steps:
  "\<exists>q s. py_truediv (PyFloat f) (PyInt 20) = Inr q
      \<and> py_add (float_literal (7 / 10)) q = Inr s
      \<and> success_probability (PNum (PyFloat f)) = Inr (py_min (float_literal (95 / 100)) s)"
proof -
  obtain q where q: "float_truediv f (Finite 20) = Inr q" by (cases f) simp_all
  then have 1: "py_truediv (PyFloat f) (PyInt 20) = Inr (PyFloat q)"
    by (simp add: bind_err_def)
  have 2: "py_add (float_literal (7 / 10)) (PyFloat q) =
      Inr (PyFloat (float_add (to_double (7 / 10)) q))"
    by (simp add: float_literal_def bind_err_def)
  have "success_probability (PNum (PyFloat f)) =
      Inr (py_min (float_literal (95 / 100)) (PyFloat (float_add (to_double (7 / 10)) q)))"
    unfolding success_probability_def py_num.simps bind_err_def 1 2 sum.case ..
  with 1 2 show ?thesis by blast
qed

text \<open>
  C10. Composed as in the handler, where the ttc is the float that \<open>calculate_ttc\<close>
  returned, the simulation reads the ttc that \<open>calculate_avoidance_maneuver\<close> stored,
  rounded to two decimal places: for every raw ttc of at most 10 the success probability
  is \<open>min(0.95, 0.7 + round(ttc, 2) / 20)\<close>, and the first draw is compared with that
  value.
\<close>

theorem success_probability_of_rounded_ttc:
  "(calculate_ttc self distance speed_a speed_b = Inr ttc \<longrightarrow> (\<exists>f. ttc = PyFloat f))
   \<and> (py_le (PyFloat f) (PyInt 10) \<longrightarrow>
      (\<exists>q s r g'.
         calculate_avoidance_maneuver cas_system car_a car_b (PyFloat f) ''ttc'' =
           Some (PNum (py_round (PyFloat f) 2))
         \<and> py_truediv (py_round (PyFloat f) 2) (PyInt 20) = Inr q
         \<and> py_add (float_literal (7 / 10)) q = Inr s
         \<and> success_probability (PNum (py_round (PyFloat f) 2)) =
             Inr (py_min (float_literal (95 / 100)) s)
         \<and> simulate_avoidance cas_system car_a car_b
              (calculate_avoidance_maneuver cas_system car_a car_b (PyFloat f)) g = Inr (r, g')
         \<and> collision_avoided r =
             py_lt (PyFloat (Finite (shd g))) (py_min (float_literal (95 / 100)) s)))"
proof (intro conjI impI)
  assume "calculate_ttc self distance speed_a speed_b = Inr ttc"
  then show "\<exists>f. ttc = PyFloat f" by (rule calculate_ttc_float)
next
  assume le: "py_le (PyFloat f) (PyInt 10)"
  then have imm: "\<not> py_gt (PyFloat f) (critical_ttc_threshold cas_system)"
    using not_gt_if_le [of "PyFloat f" 10 10] by simp
  let ?adv = "calculate_avoidance_maneuver cas_system car_a car_b (PyFloat f)"
  have status: "?adv ''status'' = Some (PStr ''collision_imminent'')"
    and stored: "?adv ''ttc'' = Some (PNum (py_round (PyFloat f) 2))"
    by (simp_all add: advice_imminent [OF imm] del: py_round.simps)
  obtain f' where f': "py_round (PyFloat f) 2 = PyFloat f'"
    using py_round_float by blast
  obtain q s where steps: "py_truediv (PyFloat f') (PyInt 20) = Inr q"
    "py_add (float_literal (7 / 10)) q = Inr s"
    "success_probability (PNum (PyFloat f')) = Inr (py_min (float_literal (95 / 100)) s)"
    using success_probability_steps by blast
  have ne: "PStr ''collision_imminent'' \<noteq> PStr ''safe''" by simp
  obtain r g' where run: "simulate_avoidance cas_system car_a car_b ?adv g = Inr (r, g')"
    "collision_avoided r =
       py_lt (PyFloat (Finite (shd g))) (py_min (float_literal (95 / 100)) s)"
    using simulate_imminent_avoided [OF status ne stored, of _ cas_system car_a car_b g]
      steps(3) f' by auto
  show "\<exists>q s r g'.
         ?adv ''ttc'' = Some (PNum (py_round (PyFloat f) 2))
         \<and> py_truediv (py_round (PyFloat f) 2) (PyInt 20) = Inr q
         \<and> py_add (float_literal (7 / 10)) q = Inr s
         \<and> success_probability (PNum (py_round (PyFloat f) 2)) =
             Inr (py_min (float_literal (95 / 100)) s)
         \<and> simulate_avoidance cas_system car_a car_b ?adv g = Inr (r, g')
         \<and> collision_avoided r =
             py_lt (PyFloat (Finite (shd g))) (py_min (float_literal (95 / 100)) s)"
    using stored steps run unfolding f' by blast
qed

lemma ttc_107_40:
  "calculate_ttc cas_system (PyInt 107) (PyInt 20) (PyInt 20) =
     Inr (PyFloat (Finite (3011782250804019 / 2 ^ 50)))"
proof -
  have "to_double (107 / 40) = Finite (3011782250804019 / 2 ^ 50)"
    using to_double_eval [of 1 "107 / 40"]
    by (simp add: round_half_even_def power_int_minus_divide)
  then show ?thesis by (simp add: calculate_ttc_def bind_err_def)
qed

lemma round_ttc_107_40:
  "py_round (PyFloat (Finite (3011782250804019 / 2 ^ 50))) 2 =
     PyFloat (Finite (1503076375634903 / 2 ^ 49))"
proof -
  have "to_double (267 / 100) = Finite (1503076375634903 / 2 ^ 49)"
    using to_double_eval [of 1 "267 / 100"]
    by (simp add: round_half_even_def power_int_minus_divide)
  then show ?thesis by (simp add: round_half_even_def)
qed

lemma probability_ttc_107_40:
  "py_truediv (PyFloat (Finite (1503076375634903 / 2 ^ 49))) (PyInt 20) =
     Inr (PyFloat (Finite (2404922201015845 / 2 ^ 54)))"
  "py_add (float_literal (7 / 10)) (PyFloat (Finite (2404922201015845 / 2 ^ 54))) =
     Inr (PyFloat (Finite (938437572353327 / 2 ^ 50)))"
  "py_min (float_literal (95 / 100)) (PyFloat (Finite (938437572353327 / 2 ^ 50))) =
     PyFloat (Finite (938437572353327 / 2 ^ 50))"
proof -
  have "to_double (1503076375634903 / 11258999068426240) = Finite (2404922201015845 / 2 ^ 54)"
    using to_double_eval [of "- 3" "1503076375634903 / 11258999068426240"]
    by (simp add: round_half_even_def power_int_minus_divide)
  then show "py_truediv (PyFloat (Finite (1503076375634903 / 2 ^ 49))) (PyInt 20) =
     Inr (PyFloat (Finite (2404922201015845 / 2 ^ 54)))"
    by (simp add: bind_err_def)
  have "to_double (15015001157653233 / 18014398509481984) = Finite (938437572353327 / 2 ^ 50)"
    using to_double_eval [of "- 1" "15015001157653233 / 18014398509481984"]
    by (simp add: round_half_even_def power_int_minus_divide)
  then show "py_add (float_literal (7 / 10)) (PyFloat (Finite (2404922201015845 / 2 ^ 54))) =
     Inr (PyFloat (Finite (938437572353327 / 2 ^ 50)))"
    unfolding float_literal_07 by (simp add: bind_err_def)
  show "py_min (float_literal (95 / 100)) (PyFloat (Finite (938437572353327 / 2 ^ 50))) =
     PyFloat (Finite (938437572353327 / 2 ^ 50))"
    unfolding float_literal_095 by (simp add: py_min_def)
qed

theorem success_probability_of_rounded_ttc_witness:
  "calculate_ttc cas_system (PyInt 107) (PyInt 20) (PyInt 20) =
     Inr (PyFloat (Finite (3011782250804019 / 2 ^ 50)))
   \<and> py_le (PyFloat (Finite (3011782250804019 / 2 ^ 50))) (PyInt 10)
   \<and> calculate_avoidance_maneuver cas_system
        \<lparr>speed = PyInt 20, position = PyInt 0\<rparr> \<lparr>speed = PyInt 20, position = PyInt 107\<rparr>
        (PyFloat (Finite (3011782250804019 / 2 ^ 50))) ''ttc'' =
      Some (PNum (PyFloat (Finite (1503076375634903 / 2 ^ 49))))
   \<and> success_probability (PNum (PyFloat (Finite (1503076375634903 / 2 ^ 49)))) =
       Inr (PyFloat (Finite (938437572353327 / 2 ^ 50)))
   \<and> (\<exists>r g'. simulate_avoidance cas_system
          \<lparr>speed = PyInt 20, position = PyInt 0\<rparr> \<lparr>speed = PyInt 20, position = PyInt 107\<rparr>
          (calculate_avoidance_maneuver cas_system
             \<lparr>speed = PyInt 20, position = PyInt 0\<rparr> \<lparr>speed = PyInt 20, position = PyInt 107\<rparr>
             (PyFloat (Finite (3011782250804019 / 2 ^ 50))))
          (SCons (7509302018677565 / 2 ^ 53) (sconst 0)) = Inr (r, g')
        \<and> \<not> collision_avoided r)"
proof -
  let ?f = "Finite (3011782250804019 / 2 ^ 50)"
  let ?a = "\<lparr>speed = PyInt 20, position = PyInt 0\<rparr>"
  let ?b = "\<lparr>speed = PyInt 20, position = PyInt 107\<rparr>"
  let ?g = "SCons (7509302018677565 / 2 ^ 53) (sconst 0)"
  have le: "py_le (PyFloat ?f) (PyInt 10)" by simp
  from success_probability_of_rounded_ttc [where f = ?f and car_a = ?a and car_b = ?b
      and g = ?g and self = cas_system and distance = "PyInt 107" and speed_a = "PyInt 20"
      and speed_b = "PyInt 20" and ttc = "PyFloat ?f"] le
  obtain q s r g' where run:
    "calculate_avoidance_maneuver cas_system ?a ?b (PyFloat ?f) ''ttc'' =
       Some (PNum (py_round (PyFloat ?f) 2))"
    "py_truediv (py_round (PyFloat ?f) 2) (PyInt 20) = Inr q"
    "py_add (float_literal (7 / 10)) q = Inr s"
    "success_probability (PNum (py_round (PyFloat ?f) 2)) =
       Inr (py_min (float_literal (95 / 100)) s)"
    "simulate_avoidance cas_system ?a ?b
       (calculate_avoidance_maneuver cas_system ?a ?b (PyFloat ?f)) ?g = Inr (r, g')"
    "collision_avoided r =
       py_lt (PyFloat (Finite (shd ?g))) (py_min (float_literal (95 / 100)) s)"
    by blast
  from run(2) have q: "q = PyFloat (Finite (2404922201015845 / 2 ^ 54))"
    unfolding round_ttc_107_40 probability_ttc_107_40(1) by simp
  from run(3) have s: "s = PyFloat (Finite (938437572353327 / 2 ^ 50))"
    unfolding q probability_ttc_107_40(2) by simp
  from run(1) have stored: "calculate_avoidance_maneuver cas_system ?a ?b (PyFloat ?f) ''ttc'' =
       Some (PNum (PyFloat (Finite (1503076375634903 / 2 ^ 49))))"
    unfolding round_ttc_107_40 .
  from run(4) have p: "success_probability (PNum (PyFloat (Finite (1503076375634903 / 2 ^ 49)))) =
       Inr (PyFloat (Finite (938437572353327 / 2 ^ 50)))"
    unfolding round_ttc_107_40 s probability_ttc_107_40(3) .
  from run(6) have "\<not> collision_avoided r"
    unfolding s probability_ttc_107_40(3) by simp
  with run(5) have "\<exists>r g'. simulate_avoidance cas_system ?a ?b
       (calculate_avoidance_maneuver cas_system ?a ?b (PyFloat ?f)) ?g = Inr (r, g')
       \<and> \<not> collision_avoided r"
    by blast
  with ttc_107_40 le stored p show ?thesis by blast
qed

text \<open>
  Two requests traced through the handler. With \<open>position_b = 107\<close> and both speeds 20
  the ttc is the double below 2.675, the advice stores 2.67, and a draw of 0.8337 is a
  collision. With \<open>position_b = 10 ** 310\<close> the division raises and the handler does
  not return.
\<close>

lemma calculate_collision_example:
  "calculate_collision
     [''speed_a'' \<mapsto> PyInt 20, ''speed_b'' \<mapsto> PyInt 20, ''position_b'' \<mapsto> PyInt 107]
     (SCons (7509302018677565 / 2 ^ 53) (sconst 0)) =
   Inr (\<lparr>resp_distance = PyInt 107,
          resp_ttc = PyFloat (Finite (1503076375634903 / 2 ^ 49)),
          resp_avoidance_advice =
            [''status'' \<mapsto> PStr ''collision_imminent'',
             ''alert_level'' \<mapsto> PStr ''critical'',
             ''ttc'' \<mapsto> PNum (PyFloat (Finite (1503076375634903 / 2 ^ 49))),
             ''maneuvers'' \<mapsto> PList [''Both vehicles reduce speed immediately'',
                                     ''Vehicle A: Steer right onto shoulder'',
                                     ''Vehicle B: Maintain course, prepare to brake''],
             ''safe_maneuver_applied'' \<mapsto> PBool True],
          resp_simulation_result =
            \<lparr>collision_avoided = False, min_distance = PyInt 0,
              outcome = ''COLLISION OCCURRED''\<rparr>,
          resp_car_a = \<lparr>speed = PyInt 20, position = PyInt 0\<rparr>,
          resp_car_b = \<lparr>speed = PyInt 20, position = PyInt 107\<rparr>\<rparr>,
        sconst 0)"
proof -
  let ?f = "PyFloat (Finite (3011782250804019 / 2 ^ 50))"
  let ?a = "\<lparr>speed = PyInt 20, position = PyInt 0\<rparr>"
  let ?b = "\<lparr>speed = PyInt 20, position = PyInt 107\<rparr>"
  let ?g = "SCons (7509302018677565 / 2 ^ 53) (sconst 0)"
  let ?adv = "[''status'' \<mapsto> PStr ''collision_imminent'',
             ''alert_level'' \<mapsto> PStr ''critical'',
             ''ttc'' \<mapsto> PNum (PyFloat (Finite (1503076375634903 / 2 ^ 49))),
             ''maneuvers'' \<mapsto> PList [''Both vehicles reduce speed immediately'',
                                     ''Vehicle A: Steer right onto shoulder'',
                                     ''Vehicle B: Maintain course, prepare to brake''],
             ''safe_maneuver_applied'' \<mapsto> PBool True]"
  have imm: "\<not> py_gt ?f (critical_ttc_threshold cas_system)" by (simp add: py_gt_def)
  have adv: "calculate_avoidance_maneuver cas_system ?a ?b ?f = ?adv"
    unfolding advice_imminent [OF imm] round_ttc_107_40 by (simp add: py_ge_def)
  have p: "success_probability (PNum (PyFloat (Finite (1503076375634903 / 2 ^ 49)))) =
      Inr (PyFloat (Finite (938437572353327 / 2 ^ 50)))"
    unfolding success_probability_def py_num.simps bind_err_def probability_ttc_107_40 sum.case ..
  have keys: "?adv ''status'' = Some (PStr ''collision_imminent'')"
    "PStr ''collision_imminent'' \<noteq> PStr ''safe''"
    "?adv ''ttc'' = Some (PNum (PyFloat (Finite (1503076375634903 / 2 ^ 49))))"
    by simp_all
  have sim: "simulate_avoidance cas_system ?a ?b ?adv ?g =
      Inr (\<lparr>collision_avoided = False, min_distance = PyInt 0,
             outcome = ''COLLISION OCCURRED''\<rparr>, sconst 0)"
    unfolding simulate_imminent [OF keys p] by simp
  have cars:
    "dict_get_default [''speed_a'' \<mapsto> PyInt 20, ''speed_b'' \<mapsto> PyInt 20,
        ''position_b'' \<mapsto> PyInt 107] ''speed_a'' (PyInt 0) = PyInt 20"
    "dict_get_default [''speed_a'' \<mapsto> PyInt 20, ''speed_b'' \<mapsto> PyInt 20,
        ''position_b'' \<mapsto> PyInt 107] ''position_a'' (PyInt 0) = PyInt 0"
    "dict_get_default [''speed_a'' \<mapsto> PyInt 20, ''speed_b'' \<mapsto> PyInt 20,
        ''position_b'' \<mapsto> PyInt 107] ''speed_b'' (PyInt 0) = PyInt 20"
    "dict_get_default [''speed_a'' \<mapsto> PyInt 20, ''speed_b'' \<mapsto> PyInt 20,
        ''position_b'' \<mapsto> PyInt 107] ''position_b'' (PyInt 500) = PyInt 107"
    by (simp_all add: dict_get_default_def)
  have sub: "py_sub (PyInt 107) (PyInt 0) = Inr (PyInt 107)" by simp
  have ab: "py_abs (PyInt 107) = PyInt 107" by simp
  have rd: "py_round (PyInt 107) 2 = PyInt 107" by simp
  show ?thesis
    unfolding calculate_collision_def cars Let_def car.select_convs sub bind_err_def sum.case
      ab ttc_107_40 adv sim prod.case round_ttc_107_40 rd ..
qed

lemma calculate_collision_overflow:
  "calculate_collision
     [''speed_a'' \<mapsto> PyInt 1, ''speed_b'' \<mapsto> PyInt 1, ''position_b'' \<mapsto> PyInt (10 ^ 310)] g =
   Inl OverflowError"
proof -
  have "py_sub (PyInt (10 ^ 310)) (PyInt 0) = Inr (PyInt (10 ^ 310))" by simp
  moreover have "py_abs (PyInt (10 ^ 310)) = PyInt (10 ^ 310)" by simp
  ultimately show ?thesis
    unfolding calculate_collision_def
    by (simp add: dict_get_default_def Let_def bind_err_def calculate_ttc_huge
        del: py_sub.simps py_abs.simps power_numeral)
qed

end
